theory Spec2Isabelle
  imports Complex_Main "HOL-Library.Monad_Syntax"
begin

section \<open>JavaScript values\<close>

text \<open>
  The validators of \<^verbatim>\<open>packages/shared/src/validators\<close> read loosely shaped objects, so
  the model works on a datatype of JavaScript values: \<^verbatim>\<open>undefined\<close>, \<^verbatim>\<open>null\<close>,
  booleans, numbers, strings and plain data objects (own properties holding values of the
  same kind, prototype \<^verbatim>\<open>Object.prototype\<close>). Arrays, functions, symbols, BigInts and
  wrapper objects such as \<^verbatim>\<open>new String("ca")\<close> are not part of the model: a theorem about
  every value is a theorem about the values of this datatype, and says nothing about an
  object with a callable property.

  A number is \<^verbatim>\<open>NaN\<close>, an infinity or a finite value; finite values are rationals, a
  superset of the finite doubles on which comparison is exact. A string is a list of
  code units below 256, so \<open>length\<close> is JavaScript's \<^verbatim>\<open>.length\<close>.

  A thrown \<^verbatim>\<open>TypeError\<close> is the only exception the code can raise; a computation that
  may throw returns an \<open>option\<close>, \<open>None\<close> being the throw.
\<close>

datatype jsnum = NaN | NegInf | Fin rat | PosInf

datatype jsval =
    JUndefined
  | JNull
  | JBool bool
  | JNum jsnum
  | JStr string
  | JObj "(string \<times> jsval) list"

text \<open>
  Three primitives of the engine depend on IEEE rounding or on formats the language
  standard leaves to the implementation. They are parameters of the model, and every
  general theorem below holds for every choice of them:
  \<^item> \<open>numberToString\<close>: \<^verbatim>\<open>Number::toString\<close> of a finite number that is not an integer of
    magnitude at most \<open>2^53\<close>;
  \<^item> \<open>stringToNumber\<close>: \<^verbatim>\<open>ToNumber\<close> of a string;
  \<^item> \<open>dateParseOther\<close>: \<^verbatim>\<open>Date.parse\<close> of a string that V8's ISO parser does not accept
    as a date-only form \<^verbatim>\<open>YYYY-MM-DD\<close> (date-time forms and the legacy fallback).
\<close>

record engine =
  numberToString :: "rat \<Rightarrow> string"
  stringToNumber :: "string \<Rightarrow> jsnum"
  dateParseOther :: "string \<Rightarrow> jsnum"

text \<open>\<^verbatim>\<open>ToBoolean\<close>: what \<^verbatim>\<open>!x\<close> and \<^verbatim>\<open>x && y\<close> test.\<close>

fun truthy :: "jsval \<Rightarrow> bool" where
  "truthy JUndefined = False"
| "truthy JNull = False"
| "truthy (JBool b) = b"
| "truthy (JNum n) = (n \<noteq> NaN \<and> n \<noteq> Fin 0)"
| "truthy (JStr s) = (s \<noteq> [])"
| "truthy (JObj kvs) = True"

text \<open>
  The property read \<^verbatim>\<open>o.k\<close>: a \<^verbatim>\<open>TypeError\<close> on \<^verbatim>\<open>undefined\<close> and \<^verbatim>\<open>null\<close>, the own
  property of an object, \<^verbatim>\<open>undefined\<close> otherwise. None of the names the validators read
  is a property of \<^verbatim>\<open>Object.prototype\<close> or of a primitive's wrapper.
\<close>

fun getProp :: "jsval \<Rightarrow> string \<Rightarrow> jsval option" where
  "getProp JUndefined k = None"
| "getProp JNull k = None"
| "getProp (JObj kvs) k = Some (case map_of kvs k of Some v \<Rightarrow> v | None \<Rightarrow> JUndefined)"
| "getProp (JBool b) k = Some JUndefined"
| "getProp (JNum n) k = Some JUndefined"
| "getProp (JStr s) k = Some JUndefined"

definition hasOwn :: "(string \<times> jsval) list \<Rightarrow> string \<Rightarrow> bool" where
  "hasOwn kvs k = (map_of kvs k \<noteq> None)"

subsection \<open>Conversion to string\<close>

definition digitChar :: "nat \<Rightarrow> char" where
  "digitChar d = ''0123456789'' ! d"

fun digitsOf :: "nat \<Rightarrow> string" where
  "digitsOf n = (if n < 10 then [digitChar n] else digitsOf (n div 10) @ [digitChar (n mod 10)])"

declare digitsOf.simps [simp del]

definition isSafeInteger :: "rat \<Rightarrow> bool" where
  "isSafeInteger q = (of_int \<lfloor>q\<rfloor> = q \<and> \<bar>q\<bar> \<le> 2 ^ 53)"

definition numToString :: "engine \<Rightarrow> jsnum \<Rightarrow> string" where
  "numToString E n =
     (case n of
        NaN \<Rightarrow> ''NaN''
      | PosInf \<Rightarrow> ''Infinity''
      | NegInf \<Rightarrow> ''-Infinity''
      | Fin q \<Rightarrow>
          if isSafeInteger q
          then (if q < 0 then ''-'' else '''') @ digitsOf (nat \<bar>\<lfloor>q\<rfloor>\<bar>)
          else numberToString E q)"

text \<open>
  \<^verbatim>\<open>ToString\<close>, and \<^verbatim>\<open>ToPrimitive\<close> of an object. A data object inherits
  \<^verbatim>\<open>Object.prototype.toString\<close>, which gives \<^verbatim>\<open>"[object Object]"\<close>; when the object has an
  own property \<^verbatim>\<open>toString\<close> (a data value, so not callable) the conversion finds no
  usable method and throws a \<^verbatim>\<open>TypeError\<close>.
\<close>

definition objectToPrimitive :: "(string \<times> jsval) list \<Rightarrow> string option" where
  "objectToPrimitive kvs = (if hasOwn kvs ''toString'' then None else Some ''[object Object]'')"

fun toStringJS :: "engine \<Rightarrow> jsval \<Rightarrow> string option" where
  "toStringJS E JUndefined = Some ''undefined''"
| "toStringJS E JNull = Some ''null''"
| "toStringJS E (JBool b) = Some (if b then ''true'' else ''false'')"
| "toStringJS E (JNum n) = Some (numToString E n)"
| "toStringJS E (JStr s) = Some s"
| "toStringJS E (JObj kvs) = objectToPrimitive kvs"

subsection \<open>Character classes, trimming, upper case\<close>

text \<open>The code units below 256 that \<^verbatim>\<open>\s\<close> matches and \<^verbatim>\<open>trim\<close> strips.\<close>

definition isSpace :: "char \<Rightarrow> bool" where
  "isSpace c = (c \<in> set [CHR 0x09, CHR 0x0A, CHR 0x0B, CHR 0x0C, CHR 0x0D, CHR '' '', CHR 0xA0])"

definition isDigit :: "char \<Rightarrow> bool" where
  "isDigit c = (c \<in> set ''0123456789'')"

definition trim :: "string \<Rightarrow> string" where
  "trim s = rev (dropWhile isSpace (rev (dropWhile isSpace s)))"

text \<open>The method call \<^verbatim>\<open>v.trim()\<close>: only a string has the method.\<close>

fun trimCall :: "jsval \<Rightarrow> string option" where
  "trimCall (JStr s) = Some (trim s)"
| "trimCall v = None"

text \<open>
  \<^verbatim>\<open>String.prototype.toUpperCase\<close> on code units below 256. The result is a list of code
  units as numbers, since three of them leave the range: sharp s becomes \<^verbatim>\<open>SS\<close>, y with
  diaeresis becomes U+0178 and the micro sign becomes U+039C.
\<close>

definition upperUnits :: "char \<Rightarrow> nat list" where
  "upperUnits c =
     (let n = (of_char c :: nat) in
      if 97 \<le> n \<and> n \<le> 122 then [n - 32]
      else if 224 \<le> n \<and> n \<le> 254 \<and> n \<noteq> 247 then [n - 32]
      else if n = 223 then [83, 83]
      else if n = 255 then [376]
      else if n = 181 then [924]
      else [n])"

definition toUpperCase :: "string \<Rightarrow> nat list" where
  "toUpperCase s = concat (map upperUnits s)"

definition units :: "string \<Rightarrow> nat list" where
  "units s = map of_char s"

section \<open>Regular expressions\<close>

text \<open>
  The patterns of the source are built from single characters, \<^verbatim>\<open>\d\<close>, the class
  \<^verbatim>\<open>[^\s@]\<close>, sequencing, \<^verbatim>\<open>?\<close>, \<^verbatim>\<open>+\<close> and \<^verbatim>\<open>{n}\<close> / \<^verbatim>\<open>{n,m}\<close> on a class. \<open>rmatch r s\<close> lists
  every remainder of \<open>s\<close> after a prefix that \<open>r\<close> matches. Every pattern of the source is
  anchored (\<^verbatim>\<open>^...$\<close>, no flags), so \<^verbatim>\<open>test\<close> succeeds when the empty remainder is reached.
\<close>

datatype cclass = Lit char | Digit | NotSpaceAt

fun inClass :: "cclass \<Rightarrow> char \<Rightarrow> bool" where
  "inClass (Lit a) c = (c = a)"
| "inClass Digit c = isDigit c"
| "inClass NotSpaceAt c = (\<not> isSpace c \<and> c \<noteq> CHR ''@'')"

datatype regex =
    Eps
  | One cclass
  | Seq regex regex
  | Opt regex
  | Many1 cclass
  | Times cclass nat nat

fun many1 :: "cclass \<Rightarrow> string \<Rightarrow> string list" where
  "many1 k [] = []"
| "many1 k (c # cs) = (if inClass k c then cs # many1 k cs else [])"

fun times :: "cclass \<Rightarrow> nat \<Rightarrow> nat \<Rightarrow> string \<Rightarrow> string list" where
  "times k lo 0 s = (if lo = 0 then [s] else [])"
| "times k lo (Suc hi) s =
     (if lo = 0 then [s] else []) @
     (case s of [] \<Rightarrow> [] | c # cs \<Rightarrow> if inClass k c then times k (lo - 1) hi cs else [])"

fun rmatch :: "regex \<Rightarrow> string \<Rightarrow> string list" where
  "rmatch Eps s = [s]"
| "rmatch (One k) s = (case s of [] \<Rightarrow> [] | c # cs \<Rightarrow> if inClass k c then [cs] else [])"
| "rmatch (Seq a b) s = concat (map (rmatch b) (rmatch a s))"
| "rmatch (Opt a) s = rmatch a s @ [s]"
| "rmatch (Many1 k) s = many1 k s"
| "rmatch (Times k lo hi) s = times k lo hi s"

definition matches :: "regex \<Rightarrow> string \<Rightarrow> bool" where
  "matches r s = ([] \<in> set (rmatch r s))"

fun seqs :: "regex list \<Rightarrow> regex" where
  "seqs [] = Eps"
| "seqs [r] = r"
| "seqs (r # rs) = Seq r (seqs rs)"

text \<open>\<^verbatim>\<open>regex.test(v)\<close>: the argument is converted to a string first.\<close>

definition regexTest :: "engine \<Rightarrow> regex \<Rightarrow> jsval \<Rightarrow> bool option" where
  "regexTest E r v = do { s \<leftarrow> toStringJS E v; Some (matches r s) }"

section \<open>Dates\<close>

text \<open>
  The time value of a \<^verbatim>\<open>Date\<close> is a number: \<^verbatim>\<open>NaN\<close> for an invalid date, otherwise the
  milliseconds since the epoch. \<open>dayFromYear\<close>, \<open>monthStart\<close> and \<open>makeDay\<close> are the
  standard's \<^verbatim>\<open>DayFromYear\<close> and \<^verbatim>\<open>MakeDay\<close>: the day number of the first of the month
  plus the day of the month minus one, so a day past the end of its month runs on into
  the next month.
\<close>

definition isLeap :: "int \<Rightarrow> bool" where
  "isLeap y = (y mod 4 = 0 \<and> (y mod 100 \<noteq> 0 \<or> y mod 400 = 0))"

definition dayFromYear :: "int \<Rightarrow> int" where
  "dayFromYear y =
     365 * (y - 1970) + (y - 1969) div 4 - (y - 1901) div 100 + (y - 1601) div 400"

definition daysInMonth :: "int \<Rightarrow> int \<Rightarrow> int" where
  "daysInMonth y m =
     (if m = 2 then (if isLeap y then 29 else 28)
      else if m = 4 \<or> m = 6 \<or> m = 9 \<or> m = 11 then 30
      else 31)"

fun monthStart :: "int \<Rightarrow> nat \<Rightarrow> int" where
  "monthStart y 0 = 0"
| "monthStart y (Suc k) = monthStart y k + daysInMonth y (int (Suc k))"

definition makeDay :: "int \<Rightarrow> int \<Rightarrow> int \<Rightarrow> int" where
  "makeDay y m d = dayFromYear y + monthStart y (nat (m - 1)) + d - 1"

definition msPerDay :: int where
  "msPerDay = 86400000"

definition digitVal :: "char \<Rightarrow> int" where
  "digitVal c = int (of_char c) - 48"

definition numeral10 :: "string \<Rightarrow> int" where
  "numeral10 s = foldl (\<lambda>a c. 10 * a + digitVal c) 0 s"

definition dateRegex :: regex where
  "dateRegex = seqs [Times Digit 4 4, One (Lit CHR ''-''), Times Digit 2 2, One (Lit CHR ''-''), Times Digit 2 2]"

text \<open>
  \<^verbatim>\<open>Date.parse\<close> on V8, the engine of Node.js (the README asks for Node.js 18+). V8's ISO
  parser reads a four-digit year, a two-digit month in 1..12 and a two-digit day in
  1..31, whatever the month, and takes a date-only form as UTC midnight; \<^verbatim>\<open>MakeDay\<close> then
  normalises a day past the end of the month. Every other string is left to the
  engine's parameter.
\<close>

definition dateParse :: "engine \<Rightarrow> string \<Rightarrow> jsnum" where
  "dateParse E s =
     (let y = numeral10 (take 4 s); m = numeral10 (take 2 (drop 5 s)); d = numeral10 (drop 8 s)
      in if matches dateRegex s \<and> 1 \<le> m \<and> m \<le> 12 \<and> 1 \<le> d \<and> d \<le> 31
         then Fin (of_int (makeDay y m d * msPerDay))
         else dateParseOther E s)"

text \<open>\<^verbatim>\<open>TimeClip\<close> of a number given to the \<^verbatim>\<open>Date\<close> constructor.\<close>

definition timeClip :: "jsnum \<Rightarrow> jsnum" where
  "timeClip n =
     (case n of
        Fin q \<Rightarrow> if \<bar>q\<bar> \<le> 8640000000000000
                 then Fin (of_int (if 0 \<le> q then \<lfloor>q\<rfloor> else \<lceil>q\<rceil>)) else NaN
      | _ \<Rightarrow> NaN)"

text \<open>\<^verbatim>\<open>new Date(v)\<close>, as the time value of the new object.\<close>

fun newDate :: "engine \<Rightarrow> jsval \<Rightarrow> jsnum option" where
  "newDate E JUndefined = Some NaN"
| "newDate E JNull = Some (Fin 0)"
| "newDate E (JBool b) = Some (Fin (if b then 1 else 0))"
| "newDate E (JNum n) = Some (timeClip n)"
| "newDate E (JStr s) = Some (dateParse E s)"
| "newDate E (JObj kvs) = do { s \<leftarrow> objectToPrimitive kvs; Some (dateParse E s) }"

subsection \<open>Comparison\<close>

text \<open>
  \<open>numLt\<close> and \<open>numLe\<close> are \<^verbatim>\<open><\<close> and \<^verbatim>\<open><=\<close> on numbers: false as soon as one side is
  \<^verbatim>\<open>NaN\<close>.
\<close>

fun numLt :: "jsnum \<Rightarrow> jsnum \<Rightarrow> bool" where
  "numLt NaN b = False"
| "numLt a NaN = False"
| "numLt PosInf b = False"
| "numLt a NegInf = False"
| "numLt NegInf b = True"
| "numLt a PosInf = True"
| "numLt (Fin x) (Fin y) = (x < y)"

fun numLe :: "jsnum \<Rightarrow> jsnum \<Rightarrow> bool" where
  "numLe NaN b = False"
| "numLe a NaN = False"
| "numLe a b = (\<not> numLt b a)"

section \<open>userValidator.js\<close>

definition emailRegex :: regex where
  "emailRegex =
     seqs [Many1 NotSpaceAt, One (Lit CHR ''@''), Many1 NotSpaceAt, One (Lit CHR ''.''), Many1 NotSpaceAt]"

definition isValidEmail :: "engine \<Rightarrow> jsval \<Rightarrow> bool option" where
  "isValidEmail E email = regexTest E emailRegex email"

definition phoneRegex :: regex where
  "phoneRegex = seqs [Opt (One (Lit CHR ''+'')), Opt (One (Lit CHR ''1'')), Times Digit 10 14]"

definition isValidPhoneNumber :: "engine \<Rightarrow> jsval \<Rightarrow> bool option" where
  "isValidPhoneNumber E phoneNumber = regexTest E phoneRegex phoneNumber"

text \<open>
  \<^verbatim>\<open>dateObj instanceof Date\<close> always holds; \<^verbatim>\<open>!isNaN(dateObj)\<close> asks whether the time
  value is a number.
\<close>

definition isValidDate :: "engine \<Rightarrow> jsval \<Rightarrow> bool option" where
  "isValidDate E date = do {
     ok \<leftarrow> regexTest E dateRegex date;
     if \<not> ok then Some False
     else do { dateObj \<leftarrow> newDate E date; Some (dateObj \<noteq> NaN) }
   }"

definition zipRegex :: regex where
  "zipRegex = seqs [Times Digit 5 5, Opt (seqs [One (Lit CHR ''-''), Times Digit 4 4])]"

definition isValidZipCode :: "engine \<Rightarrow> jsval \<Rightarrow> bool option" where
  "isValidZipCode E zipCode = regexTest E zipRegex zipCode"

definition validStates :: "string list" where
  "validStates =
     [''AL'', ''AK'', ''AZ'', ''AR'', ''CA'', ''CO'', ''CT'', ''DE'', ''FL'', ''GA'',
      ''HI'', ''ID'', ''IL'', ''IN'', ''IA'', ''KS'', ''KY'', ''LA'', ''ME'', ''MD'',
      ''MA'', ''MI'', ''MN'', ''MS'', ''MO'', ''MT'', ''NE'', ''NV'', ''NH'', ''NJ'',
      ''NM'', ''NY'', ''NC'', ''ND'', ''OH'', ''OK'', ''OR'', ''PA'', ''RI'', ''SC'',
      ''SD'', ''TN'', ''TX'', ''UT'', ''VT'', ''VA'', ''WA'', ''WV'', ''WI'', ''WY'',
      ''DC'', ''PR'', ''VI'', ''GU'', ''AS'', ''MP'']"

text \<open>
  \<^verbatim>\<open>validStates.includes(state?.toUpperCase())\<close>: the optional chain gives \<^verbatim>\<open>undefined\<close>
  for \<^verbatim>\<open>undefined\<close> and \<^verbatim>\<open>null\<close>, which the list does not include; a string is put in
  upper case; any other value has no \<^verbatim>\<open>toUpperCase\<close> method, and calling it throws.
\<close>

fun isValidStateCode :: "jsval \<Rightarrow> bool option" where
  "isValidStateCode JUndefined = Some False"
| "isValidStateCode JNull = Some False"
| "isValidStateCode (JStr s) = Some (toUpperCase s \<in> set (map units validStates))"
| "isValidStateCode (JBool b) = None"
| "isValidStateCode (JNum n) = None"
| "isValidStateCode (JObj kvs) = None"

record validationResult =
  isValid :: bool
  errors :: "string list"

text \<open>\<^verbatim>\<open>!x || x.trim().length === 0\<close>\<close>

definition blank :: "jsval \<Rightarrow> bool option" where
  "blank x = (if \<not> truthy x then Some True else do { t \<leftarrow> trimCall x; Some (length t = 0) })"

text \<open>
  \<^verbatim>\<open>x.length > n\<close>, reached only after \<^verbatim>\<open>x.trim()\<close> returned, so on a string.
\<close>

fun lengthGt :: "jsval \<Rightarrow> nat \<Rightarrow> bool" where
  "lengthGt (JStr s) n = (length s > n)"
| "lengthGt v n = False"

text \<open>
  Each commented block of \<^verbatim>\<open>validateUser\<close> is one definition giving the messages the
  block pushes; \<open>validateUser\<close> runs the blocks in the order of the source and appends
  what they push.
\<close>

definition emailErrors :: "engine \<Rightarrow> jsval \<Rightarrow> string list option" where
  "emailErrors E user = do {
     email \<leftarrow> getProp user ''email'';
     if \<not> truthy email then Some [''Email is required'']
     else do { ok \<leftarrow> isValidEmail E email;
               Some (if \<not> ok then [''Invalid email format''] else []) }
   }"

definition firstNameErrors :: "jsval \<Rightarrow> string list option" where
  "firstNameErrors user = do {
     firstName \<leftarrow> getProp user ''firstName'';
     b \<leftarrow> blank firstName;
     if b then Some [''First name is required'']
     else if lengthGt firstName 100 then Some [''First name must be 100 characters or less'']
     else Some []
   }"

definition lastNameErrors :: "jsval \<Rightarrow> string list option" where
  "lastNameErrors user = do {
     lastName \<leftarrow> getProp user ''lastName'';
     b \<leftarrow> blank lastName;
     if b then Some [''Last name is required'']
     else if lengthGt lastName 100 then Some [''Last name must be 100 characters or less'']
     else Some []
   }"

definition dateOfBirthErrors :: "engine \<Rightarrow> jsval \<Rightarrow> string list option" where
  "dateOfBirthErrors E user = do {
     dateOfBirth \<leftarrow> getProp user ''dateOfBirth'';
     if \<not> truthy dateOfBirth then Some [''Date of birth is required'']
     else do { ok \<leftarrow> isValidDate E dateOfBirth;
               Some (if \<not> ok then [''Date of birth must be in YYYY-MM-DD format''] else []) }
   }"

definition phoneNumberErrors :: "engine \<Rightarrow> jsval \<Rightarrow> string list option" where
  "phoneNumberErrors E user = do {
     phoneNumber \<leftarrow> getProp user ''phoneNumber'';
     if \<not> truthy phoneNumber then Some [''Phone number is required'']
     else do { ok \<leftarrow> isValidPhoneNumber E phoneNumber;
               Some (if \<not> ok then [''Invalid phone number format''] else []) }
   }"

definition streetErrors :: "jsval \<Rightarrow> string list option" where
  "streetErrors address = do {
     street \<leftarrow> getProp address ''street'';
     b \<leftarrow> blank street;
     Some (if b then [''Street address is required''] else [])
   }"

definition cityErrors :: "jsval \<Rightarrow> string list option" where
  "cityErrors address = do {
     city \<leftarrow> getProp address ''city'';
     b \<leftarrow> blank city;
     Some (if b then [''City is required''] else [])
   }"

definition stateErrors :: "jsval \<Rightarrow> string list option" where
  "stateErrors address = do {
     state \<leftarrow> getProp address ''state'';
     if \<not> truthy state then Some [''State is required'']
     else do { ok \<leftarrow> isValidStateCode state;
               Some (if \<not> ok then [''Invalid state code (must be 2-letter code like CA, NY)''] else []) }
   }"

definition zipCodeErrors :: "engine \<Rightarrow> jsval \<Rightarrow> string list option" where
  "zipCodeErrors E address = do {
     zipCode \<leftarrow> getProp address ''zipCode'';
     if \<not> truthy zipCode then Some [''ZIP code is required'']
     else do { ok \<leftarrow> isValidZipCode E zipCode;
               Some (if \<not> ok then [''Invalid ZIP code format''] else []) }
   }"

definition addressErrors :: "engine \<Rightarrow> jsval \<Rightarrow> string list option" where
  "addressErrors E user = do {
     address \<leftarrow> getProp user ''address'';
     if \<not> truthy address then Some [''Address is required'']
     else do {
       e1 \<leftarrow> streetErrors address;
       e2 \<leftarrow> cityErrors address;
       e3 \<leftarrow> stateErrors address;
       e4 \<leftarrow> zipCodeErrors E address;
       Some (e1 @ e2 @ e3 @ e4)
     }
   }"

definition finish :: "string list \<Rightarrow> validationResult" where
  "finish errs = \<lparr> isValid = (length errs = 0), errors = errs \<rparr>"

definition validateUser :: "engine \<Rightarrow> jsval \<Rightarrow> validationResult option" where
  "validateUser E user = do {
     e1 \<leftarrow> emailErrors E user;
     e2 \<leftarrow> firstNameErrors user;
     e3 \<leftarrow> lastNameErrors user;
     e4 \<leftarrow> dateOfBirthErrors E user;
     e5 \<leftarrow> phoneNumberErrors E user;
     e6 \<leftarrow> addressErrors E user;
     Some (finish (e1 @ e2 @ e3 @ e4 @ e5 @ e6))
   }"

section \<open>constants.js\<close>

text \<open>The vocabulary objects, as their entries in declaration order.\<close>

definition InsurancePlanType :: "(string \<times> string) list" where
  "InsurancePlanType =
     [(''HMO'', ''HMO''), (''PPO'', ''PPO''), (''EPO'', ''EPO''), (''POS'', ''POS''), (''HDHP'', ''HDHP'')]"

definition PrescriptionStatus :: "(string \<times> string) list" where
  "PrescriptionStatus =
     [(''PENDING'', ''PENDING''), (''SUBMITTED'', ''SUBMITTED''), (''APPROVED'', ''APPROVED''),
      (''DENIED'', ''DENIED''), (''PRIOR_AUTH_REQUIRED'', ''PRIOR_AUTH_REQUIRED''),
      (''FILLED'', ''FILLED''), (''PICKED_UP'', ''PICKED_UP''), (''CANCELLED'', ''CANCELLED'')]"

definition MedicationForm :: "(string \<times> string) list" where
  "MedicationForm =
     [(''TABLET'', ''TABLET''), (''CAPSULE'', ''CAPSULE''), (''LIQUID'', ''LIQUID''),
      (''INJECTION'', ''INJECTION''), (''CREAM'', ''CREAM''), (''INHALER'', ''INHALER''),
      (''PATCH'', ''PATCH''), (''OTHER'', ''OTHER'')]"

definition objectValues :: "(string \<times> string) list \<Rightarrow> string list" where
  "objectValues kvs = map snd kvs"

text \<open>
  \<^verbatim>\<open>xs.includes(v)\<close> on a list of strings: \<^verbatim>\<open>SameValueZero\<close> makes no conversion, so only
  a string can be found.
\<close>

fun arrayIncludes :: "string list \<Rightarrow> jsval \<Rightarrow> bool" where
  "arrayIncludes xs (JStr s) = (s \<in> set xs)"
| "arrayIncludes xs v = False"

fun join :: "string \<Rightarrow> string list \<Rightarrow> string" where
  "join sep [] = []"
| "join sep [x] = x"
| "join sep (x # xs) = x @ sep @ join sep xs"

section \<open>Relational operators on values\<close>

text \<open>
  \<^verbatim>\<open>a > b\<close> converts both operands to primitives (an object is converted as in
  \<open>objectToPrimitive\<close>), compares two strings by code units and otherwise compares the
  operands as numbers.
\<close>

fun toPrimitive :: "jsval \<Rightarrow> jsval option" where
  "toPrimitive (JObj kvs) = map_option JStr (objectToPrimitive kvs)"
| "toPrimitive v = Some v"

fun toNumber :: "engine \<Rightarrow> jsval \<Rightarrow> jsnum" where
  "toNumber E JUndefined = NaN"
| "toNumber E JNull = Fin 0"
| "toNumber E (JBool b) = Fin (if b then 1 else 0)"
| "toNumber E (JNum n) = n"
| "toNumber E (JStr s) = stringToNumber E s"
| "toNumber E (JObj kvs) = NaN"

fun strLt :: "string \<Rightarrow> string \<Rightarrow> bool" where
  "strLt [] [] = False"
| "strLt [] (y # ys) = True"
| "strLt (x # xs) [] = False"
| "strLt (x # xs) (y # ys) = ((of_char x :: nat) < of_char y \<or> (x = y \<and> strLt xs ys))"

fun primLt :: "engine \<Rightarrow> jsval \<Rightarrow> jsval \<Rightarrow> bool" where
  "primLt E (JStr x) (JStr y) = strLt x y"
| "primLt E a b = numLt (toNumber E a) (toNumber E b)"

definition jsGreater :: "engine \<Rightarrow> jsval \<Rightarrow> jsval \<Rightarrow> bool option" where
  "jsGreater E a b = do { pa \<leftarrow> toPrimitive a; pb \<leftarrow> toPrimitive b; Some (primLt E pb pa) }"

text \<open>\<^verbatim>\<open>typeof v !== 'number' || v < k\<close>\<close>

fun notNumberOrBelow :: "jsval \<Rightarrow> rat \<Rightarrow> bool" where
  "notNumberOrBelow (JNum n) k = numLt n (Fin k)"
| "notNumberOrBelow v k = True"

section \<open>insuranceValidator.js\<close>

definition rxBINRegex :: regex where
  "rxBINRegex = Times Digit 6 6"

definition isValidRxBIN :: "engine \<Rightarrow> jsval \<Rightarrow> bool option" where
  "isValidRxBIN E rxBIN = regexTest E rxBINRegex rxBIN"

definition isValidPlanType :: "jsval \<Rightarrow> bool" where
  "isValidPlanType planType = arrayIncludes (objectValues InsurancePlanType) planType"

text \<open>
  \<open>isInsuranceActive\<close> reads the clock (\<^verbatim>\<open>new Date()\<close>); the model takes the current
  time, in milliseconds since the epoch, as the argument \<open>now\<close>.
\<close>

definition isInsuranceActive :: "engine \<Rightarrow> int \<Rightarrow> jsval \<Rightarrow> bool option" where
  "isInsuranceActive E now insurance = do {
     eff \<leftarrow> getProp insurance ''effectiveDate'';
     effectiveDate \<leftarrow> newDate E eff;
     if numLt (Fin (of_int now)) effectiveDate then Some False
     else do {
       term \<leftarrow> getProp insurance ''terminationDate'';
       terminated \<leftarrow>
         (if truthy term
          then do { terminationDate \<leftarrow> newDate E term;
                    Some (numLt terminationDate (Fin (of_int now))) }
          else Some False);
       if terminated then Some False
       else do { isActive \<leftarrow> getProp insurance ''isActive''; Some (isActive \<noteq> JBool False) }
     }
   }"

text \<open>The blocks of \<^verbatim>\<open>validateInsurance\<close>, in the order of the source.\<close>

definition insUserIdErrors :: "jsval \<Rightarrow> string list option" where
  "insUserIdErrors insurance = do {
     userId \<leftarrow> getProp insurance ''userId'';
     Some (if \<not> truthy userId then [''User ID is required''] else [])
   }"

definition insuranceCompanyErrors :: "jsval \<Rightarrow> string list option" where
  "insuranceCompanyErrors insurance = do {
     insuranceCompany \<leftarrow> getProp insurance ''insuranceCompany'';
     b \<leftarrow> blank insuranceCompany;
     Some (if b then [''Insurance company name is required''] else [])
   }"

definition policyNumberErrors :: "jsval \<Rightarrow> string list option" where
  "policyNumberErrors insurance = do {
     policyNumber \<leftarrow> getProp insurance ''policyNumber'';
     b \<leftarrow> blank policyNumber;
     Some (if b then [''Policy number is required''] else [])
   }"

definition planTypeErrors :: "jsval \<Rightarrow> string list option" where
  "planTypeErrors insurance = do {
     planType \<leftarrow> getProp insurance ''planType'';
     Some (if \<not> truthy planType then [''Plan type is required'']
           else if \<not> isValidPlanType planType
           then [''Invalid plan type. Must be one of: '' @ join '', '' (objectValues InsurancePlanType)]
           else [])
   }"

definition planNameErrors :: "jsval \<Rightarrow> string list option" where
  "planNameErrors insurance = do {
     planName \<leftarrow> getProp insurance ''planName'';
     b \<leftarrow> blank planName;
     Some (if b then [''Plan name is required''] else [])
   }"

definition rxBINErrors :: "engine \<Rightarrow> jsval \<Rightarrow> string list option" where
  "rxBINErrors E insurance = do {
     rxBIN \<leftarrow> getProp insurance ''rxBIN'';
     if \<not> truthy rxBIN then Some [''RxBIN is required'']
     else do { ok \<leftarrow> isValidRxBIN E rxBIN;
               Some (if \<not> ok then [''RxBIN must be exactly 6 digits''] else []) }
   }"

text \<open>
  The four financial blocks have one shape:
  \<^verbatim>\<open>if (x !== undefined) { if (typeof x !== 'number' || x < 0) push(msg) }\<close>.
\<close>

definition amountErrors :: "jsval \<Rightarrow> string \<Rightarrow> string \<Rightarrow> string list option" where
  "amountErrors insurance field msg = do {
     x \<leftarrow> getProp insurance field;
     Some (if x \<noteq> JUndefined \<and> notNumberOrBelow x 0 then [msg] else [])
   }"

definition deductibleErrors :: "jsval \<Rightarrow> string list option" where
  "deductibleErrors insurance =
     amountErrors insurance ''deductible'' ''Deductible must be a non-negative number (in cents)''"

definition deductibleMetErrors :: "jsval \<Rightarrow> string list option" where
  "deductibleMetErrors insurance =
     amountErrors insurance ''deductibleMet'' ''Deductible met must be a non-negative number (in cents)''"

definition outOfPocketMaxErrors :: "jsval \<Rightarrow> string list option" where
  "outOfPocketMaxErrors insurance =
     amountErrors insurance ''outOfPocketMax'' ''Out of pocket max must be a non-negative number (in cents)''"

definition outOfPocketMetErrors :: "jsval \<Rightarrow> string list option" where
  "outOfPocketMetErrors insurance =
     amountErrors insurance ''outOfPocketMet'' ''Out of pocket met must be a non-negative number (in cents)''"

definition effectiveDateErrors :: "engine \<Rightarrow> jsval \<Rightarrow> string list option" where
  "effectiveDateErrors E insurance = do {
     effectiveDate \<leftarrow> getProp insurance ''effectiveDate'';
     if \<not> truthy effectiveDate then Some [''Effective date is required'']
     else do { ok \<leftarrow> isValidDate E effectiveDate;
               Some (if \<not> ok then [''Effective date must be in YYYY-MM-DD format''] else []) }
   }"

definition terminationDateErrors :: "engine \<Rightarrow> jsval \<Rightarrow> string list option" where
  "terminationDateErrors E insurance = do {
     terminationDate \<leftarrow> getProp insurance ''terminationDate'';
     if truthy terminationDate
     then do { ok \<leftarrow> isValidDate E terminationDate;
               Some (if \<not> ok then [''Termination date must be in YYYY-MM-DD format''] else []) }
     else Some []
   }"

definition dateOrderErrors :: "engine \<Rightarrow> jsval \<Rightarrow> string list option" where
  "dateOrderErrors E insurance = do {
     effectiveDate \<leftarrow> getProp insurance ''effectiveDate'';
     terminationDate \<leftarrow> getProp insurance ''terminationDate'';
     if truthy effectiveDate \<and> truthy terminationDate
     then do {
       effective \<leftarrow> newDate E effectiveDate;
       termination \<leftarrow> newDate E terminationDate;
       Some (if numLe termination effective then [''Termination date must be after effective date''] else [])
     }
     else Some []
   }"

definition deductibleCeilingErrors :: "engine \<Rightarrow> jsval \<Rightarrow> string list option" where
  "deductibleCeilingErrors E insurance = do {
     deductibleMet \<leftarrow> getProp insurance ''deductibleMet'';
     deductible \<leftarrow> getProp insurance ''deductible'';
     gt \<leftarrow> jsGreater E deductibleMet deductible;
     Some (if gt then [''Deductible met cannot exceed total deductible''] else [])
   }"

definition outOfPocketCeilingErrors :: "engine \<Rightarrow> jsval \<Rightarrow> string list option" where
  "outOfPocketCeilingErrors E insurance = do {
     outOfPocketMet \<leftarrow> getProp insurance ''outOfPocketMet'';
     outOfPocketMax \<leftarrow> getProp insurance ''outOfPocketMax'';
     gt \<leftarrow> jsGreater E outOfPocketMet outOfPocketMax;
     Some (if gt then [''Out of pocket met cannot exceed out of pocket max''] else [])
   }"

definition validateInsurance :: "engine \<Rightarrow> jsval \<Rightarrow> validationResult option" where
  "validateInsurance E insurance = do {
     e1 \<leftarrow> insUserIdErrors insurance;
     e2 \<leftarrow> insuranceCompanyErrors insurance;
     e3 \<leftarrow> policyNumberErrors insurance;
     e4 \<leftarrow> planTypeErrors insurance;
     e5 \<leftarrow> planNameErrors insurance;
     e6 \<leftarrow> rxBINErrors E insurance;
     e7 \<leftarrow> deductibleErrors insurance;
     e8 \<leftarrow> deductibleMetErrors insurance;
     e9 \<leftarrow> outOfPocketMaxErrors insurance;
     e10 \<leftarrow> outOfPocketMetErrors insurance;
     e11 \<leftarrow> effectiveDateErrors E insurance;
     e12 \<leftarrow> terminationDateErrors E insurance;
     e13 \<leftarrow> dateOrderErrors E insurance;
     e14 \<leftarrow> deductibleCeilingErrors E insurance;
     e15 \<leftarrow> outOfPocketCeilingErrors E insurance;
     Some (finish (e1 @ e2 @ e3 @ e4 @ e5 @ e6 @ e7 @ e8 @ e9 @ e10 @ e11 @ e12 @ e13 @ e14 @ e15))
   }"

section \<open>prescriptionValidator.js\<close>

definition ndcRegex :: regex where
  "ndcRegex = seqs [Times Digit 5 5, One (Lit CHR ''-''), Times Digit 4 4, One (Lit CHR ''-''), Times Digit 2 2]"

definition isValidNDC :: "engine \<Rightarrow> jsval \<Rightarrow> bool option" where
  "isValidNDC E ndc = regexTest E ndcRegex ndc"

definition npiRegex :: regex where
  "npiRegex = Times Digit 10 10"

definition isValidNPI :: "engine \<Rightarrow> jsval \<Rightarrow> bool option" where
  "isValidNPI E npi = regexTest E npiRegex npi"

definition isValidPrescriptionStatus :: "jsval \<Rightarrow> bool" where
  "isValidPrescriptionStatus status = arrayIncludes (objectValues PrescriptionStatus) status"

definition isValidMedicationForm :: "jsval \<Rightarrow> bool" where
  "isValidMedicationForm form = arrayIncludes (objectValues MedicationForm) form"

text \<open>The blocks of \<^verbatim>\<open>validatePrescription\<close>, in the order of the source.\<close>

definition rxUserIdErrors :: "jsval \<Rightarrow> string list option" where
  "rxUserIdErrors prescription = do {
     userId \<leftarrow> getProp prescription ''userId'';
     Some (if \<not> truthy userId then [''User ID is required''] else [])
   }"

definition medicationNameErrors :: "jsval \<Rightarrow> string list option" where
  "medicationNameErrors prescription = do {
     medicationName \<leftarrow> getProp prescription ''medicationName'';
     b \<leftarrow> blank medicationName;
     Some (if b then [''Medication name is required''] else [])
   }"

definition medicationFormErrors :: "jsval \<Rightarrow> string list option" where
  "medicationFormErrors prescription = do {
     medicationForm \<leftarrow> getProp prescription ''medicationForm'';
     Some (if \<not> truthy medicationForm then [''Medication form is required'']
           else if \<not> isValidMedicationForm medicationForm
           then [''Invalid medication form. Must be one of: '' @ join '', '' (objectValues MedicationForm)]
           else [])
   }"

definition strengthErrors :: "jsval \<Rightarrow> string list option" where
  \<open>strengthErrors prescription = do {
     strength \<leftarrow> getProp prescription ''strength'';
     b \<leftarrow> blank strength;
     Some (if b then [''Medication strength is required (e.g., "500mg", "10mg/ml")''] else [])
   }\<close>

definition ndcErrors :: "engine \<Rightarrow> jsval \<Rightarrow> string list option" where
  "ndcErrors E prescription = do {
     ndc \<leftarrow> getProp prescription ''ndc'';
     if truthy ndc
     then do { ok \<leftarrow> isValidNDC E ndc;
               Some (if \<not> ok then [''NDC must be in format: 12345-1234-12''] else []) }
     else Some []
   }"

definition dosageInstructionsErrors :: "jsval \<Rightarrow> string list option" where
  "dosageInstructionsErrors prescription = do {
     dosageInstructions \<leftarrow> getProp prescription ''dosageInstructions'';
     b \<leftarrow> blank dosageInstructions;
     Some (if b then [''Dosage instructions are required''] else [])
   }"

text \<open>
  Quantity, days supply and refills allowed have one shape:
  \<^verbatim>\<open>if (x === undefined || x === null) push(requiredMsg)
  else if (typeof x !== 'number' || x < lowest) push(rangeMsg)\<close>.
\<close>

definition countErrors :: "jsval \<Rightarrow> string \<Rightarrow> rat \<Rightarrow> string \<Rightarrow> string \<Rightarrow> string list option" where
  "countErrors prescription field lowest requiredMsg rangeMsg = do {
     x \<leftarrow> getProp prescription field;
     Some (if x = JUndefined \<or> x = JNull then [requiredMsg]
           else if notNumberOrBelow x lowest then [rangeMsg]
           else [])
   }"

definition quantityErrors :: "jsval \<Rightarrow> string list option" where
  "quantityErrors prescription =
     countErrors prescription ''quantity'' 1 ''Quantity is required'' ''Quantity must be a positive number''"

definition daysSupplyErrors :: "jsval \<Rightarrow> string list option" where
  "daysSupplyErrors prescription =
     countErrors prescription ''daysSupply'' 1 ''Days supply is required'' ''Days supply must be a positive number''"

definition refillsAllowedErrors :: "jsval \<Rightarrow> string list option" where
  "refillsAllowedErrors prescription =
     countErrors prescription ''refillsAllowed'' 0 ''Refills allowed is required''
       ''Refills allowed must be a non-negative number''"

definition refillsRemainingErrors :: "engine \<Rightarrow> jsval \<Rightarrow> string list option" where
  "refillsRemainingErrors E prescription = do {
     refillsRemaining \<leftarrow> getProp prescription ''refillsRemaining'';
     if refillsRemaining \<noteq> JUndefined
     then do {
       refillsAllowed \<leftarrow> getProp prescription ''refillsAllowed'';
       gt \<leftarrow> jsGreater E refillsRemaining refillsAllowed;
       Some ((if notNumberOrBelow refillsRemaining 0
              then [''Refills remaining must be a non-negative number''] else []) @
             (if gt then [''Refills remaining cannot exceed refills allowed''] else []))
     }
     else Some []
   }"

definition prescriberNameErrors :: "jsval \<Rightarrow> string list option" where
  "prescriberNameErrors prescription = do {
     prescriberName \<leftarrow> getProp prescription ''prescriberName'';
     b \<leftarrow> blank prescriberName;
     Some (if b then [''Prescriber name is required''] else [])
   }"

definition prescriberNPIErrors :: "engine \<Rightarrow> jsval \<Rightarrow> string list option" where
  "prescriberNPIErrors E prescription = do {
     prescriberNPI \<leftarrow> getProp prescription ''prescriberNPI'';
     if \<not> truthy prescriberNPI then Some [''Prescriber NPI is required'']
     else do { ok \<leftarrow> isValidNPI E prescriberNPI;
               Some (if \<not> ok then [''Prescriber NPI must be exactly 10 digits''] else []) }
   }"

definition prescribedDateErrors :: "engine \<Rightarrow> jsval \<Rightarrow> string list option" where
  "prescribedDateErrors E prescription = do {
     prescribedDate \<leftarrow> getProp prescription ''prescribedDate'';
     if \<not> truthy prescribedDate then Some [''Prescribed date is required'']
     else do { ok \<leftarrow> isValidDate E prescribedDate;
               Some (if \<not> ok then [''Prescribed date must be in YYYY-MM-DD format''] else []) }
   }"

definition statusErrors :: "jsval \<Rightarrow> string list option" where
  "statusErrors prescription = do {
     status \<leftarrow> getProp prescription ''status'';
     Some (if truthy status \<and> \<not> isValidPrescriptionStatus status
           then [''Invalid prescription status. Must be one of: '' @ join '', '' (objectValues PrescriptionStatus)]
           else [])
   }"

definition pharmacyNPIErrors :: "engine \<Rightarrow> jsval \<Rightarrow> string list option" where
  "pharmacyNPIErrors E prescription = do {
     pharmacyNPI \<leftarrow> getProp prescription ''pharmacyNPI'';
     if truthy pharmacyNPI
     then do { ok \<leftarrow> isValidNPI E pharmacyNPI;
               Some (if \<not> ok then [''Pharmacy NPI must be exactly 10 digits''] else []) }
     else Some []
   }"

definition validatePrescription :: "engine \<Rightarrow> jsval \<Rightarrow> validationResult option" where
  "validatePrescription E prescription = do {
     e1 \<leftarrow> rxUserIdErrors prescription;
     e2 \<leftarrow> medicationNameErrors prescription;
     e3 \<leftarrow> medicationFormErrors prescription;
     e4 \<leftarrow> strengthErrors prescription;
     e5 \<leftarrow> ndcErrors E prescription;
     e6 \<leftarrow> dosageInstructionsErrors prescription;
     e7 \<leftarrow> quantityErrors prescription;
     e8 \<leftarrow> daysSupplyErrors prescription;
     e9 \<leftarrow> refillsAllowedErrors prescription;
     e10 \<leftarrow> refillsRemainingErrors E prescription;
     e11 \<leftarrow> prescriberNameErrors prescription;
     e12 \<leftarrow> prescriberNPIErrors E prescription;
     e13 \<leftarrow> prescribedDateErrors E prescription;
     e14 \<leftarrow> statusErrors prescription;
     e15 \<leftarrow> pharmacyNPIErrors E prescription;
     Some (finish (e1 @ e2 @ e3 @ e4 @ e5 @ e6 @ e7 @ e8 @ e9 @ e10 @ e11 @ e12 @ e13 @ e14 @ e15))
   }"

text \<open>
  Closed examples need some engine. None of the examples below reaches one of the three
  engine primitives, so each of them holds for every engine; \<open>engine0\<close> is the one they
  are stated for.
\<close>

definition engine0 :: engine where
  "engine0 = \<lparr> numberToString = (\<lambda>q. []), stringToNumber = (\<lambda>s. NaN), dateParseOther = (\<lambda>s. NaN) \<rparr>"

section \<open>Notions used to state the claims\<close>

text \<open>\<open>field o k\<close> is \<^verbatim>\<open>o.k\<close> where that read does not throw.\<close>

definition field :: "jsval \<Rightarrow> string \<Rightarrow> jsval" where
  "field v k = (case getProp v k of Some x \<Rightarrow> x | None \<Rightarrow> JUndefined)"

text \<open>A value that \<^verbatim>\<open>ToString\<close> and \<^verbatim>\<open>ToPrimitive\<close> convert without throwing.\<close>

fun convertible :: "jsval \<Rightarrow> bool" where
  "convertible (JObj kvs) = (\<not> hasOwn kvs ''toString'')"
| "convertible v = True"

text \<open>A letter in either case, brought to upper case; any other character unchanged.\<close>

definition lowerLetters :: string where
  "lowerLetters = ''abcdefghijklmnopqrstuvwxyz''"

definition upperLetters :: string where
  "upperLetters = ''ABCDEFGHIJKLMNOPQRSTUVWXYZ''"

definition asciiUpper :: "char \<Rightarrow> char" where
  "asciiUpper c = (case map_of (zip lowerLetters upperLetters) c of Some u \<Rightarrow> u | None \<Rightarrow> c)"

text \<open>A value whose properties can be read: \<^verbatim>\<open>v.k\<close> does not throw.\<close>

definition readable :: "jsval \<Rightarrow> bool" where
  "readable v = (v \<noteq> JUndefined \<and> v \<noteq> JNull)"

text \<open>\<^verbatim>\<open>if (c) errors.push(m)\<close>, as the list of what is pushed.\<close>

definition pushIf :: "bool \<Rightarrow> string \<Rightarrow> string list" where
  "pushIf c m = (if c then [m] else [])"

text \<open>A value on which \<^verbatim>\<open>!x || x.trim().length === 0\<close> does not throw: falsy, or a string.\<close>

fun trimmable :: "jsval \<Rightarrow> bool" where
  "trimmable (JStr s) = True"
| "trimmable v = (\<not> truthy v)"

text \<open>
  The inputs on which \<open>validateUser\<close> returns, and the errors it then reports, written
  without the monad. Both are justified by \<open>validateUser_Some_iff\<close> below.
\<close>

definition userShape :: "jsval \<Rightarrow> bool" where
  "userShape u \<longleftrightarrow>
     readable u \<and>
     convertible (field u ''email'') \<and>
     trimmable (field u ''firstName'') \<and>
     trimmable (field u ''lastName'') \<and>
     convertible (field u ''dateOfBirth'') \<and>
     convertible (field u ''phoneNumber'') \<and>
     (truthy (field u ''address'') \<longrightarrow>
        trimmable (field (field u ''address'') ''street'') \<and>
        trimmable (field (field u ''address'') ''city'') \<and>
        trimmable (field (field u ''address'') ''state'') \<and>
        convertible (field (field u ''address'') ''zipCode''))"

definition userErrors :: "engine \<Rightarrow> jsval \<Rightarrow> string list" where
  "userErrors E u =
     pushIf (\<not> truthy (field u ''email'')) ''Email is required'' @
     pushIf (truthy (field u ''email'') \<and> isValidEmail E (field u ''email'') = Some False)
       ''Invalid email format'' @
     pushIf (blank (field u ''firstName'') = Some True) ''First name is required'' @
     pushIf (blank (field u ''firstName'') = Some False \<and> lengthGt (field u ''firstName'') 100)
       ''First name must be 100 characters or less'' @
     pushIf (blank (field u ''lastName'') = Some True) ''Last name is required'' @
     pushIf (blank (field u ''lastName'') = Some False \<and> lengthGt (field u ''lastName'') 100)
       ''Last name must be 100 characters or less'' @
     pushIf (\<not> truthy (field u ''dateOfBirth'')) ''Date of birth is required'' @
     pushIf (truthy (field u ''dateOfBirth'') \<and> isValidDate E (field u ''dateOfBirth'') = Some False)
       ''Date of birth must be in YYYY-MM-DD format'' @
     pushIf (\<not> truthy (field u ''phoneNumber'')) ''Phone number is required'' @
     pushIf (truthy (field u ''phoneNumber'') \<and>
             isValidPhoneNumber E (field u ''phoneNumber'') = Some False)
       ''Invalid phone number format'' @
     pushIf (\<not> truthy (field u ''address'')) ''Address is required'' @
     pushIf (truthy (field u ''address'') \<and>
             blank (field (field u ''address'') ''street'') = Some True)
       ''Street address is required'' @
     pushIf (truthy (field u ''address'') \<and>
             blank (field (field u ''address'') ''city'') = Some True)
       ''City is required'' @
     pushIf (truthy (field u ''address'') \<and> \<not> truthy (field (field u ''address'') ''state''))
       ''State is required'' @
     pushIf (truthy (field u ''address'') \<and> truthy (field (field u ''address'') ''state'') \<and>
             isValidStateCode (field (field u ''address'') ''state'') = Some False)
       ''Invalid state code (must be 2-letter code like CA, NY)'' @
     pushIf (truthy (field u ''address'') \<and> \<not> truthy (field (field u ''address'') ''zipCode''))
       ''ZIP code is required'' @
     pushIf (truthy (field u ''address'') \<and> truthy (field (field u ''address'') ''zipCode'') \<and>
             isValidZipCode E (field (field u ''address'') ''zipCode'') = Some False)
       ''Invalid ZIP code format''"

text \<open>
  \<^verbatim>\<open>termination <= effective\<close> for the two \<^verbatim>\<open>Date\<close> objects built from the values \<open>t\<close> and
  \<open>e\<close>, where both constructions return.
\<close>

definition dateNotAfter :: "engine \<Rightarrow> jsval \<Rightarrow> jsval \<Rightarrow> bool" where
  "dateNotAfter E t e =
     (case newDate E t of None \<Rightarrow> False
      | Some b \<Rightarrow> (case newDate E e of None \<Rightarrow> False | Some a \<Rightarrow> numLe b a))"

text \<open>
  The same for \<open>validateInsurance\<close>, justified by \<open>validateInsurance_Some_iff\<close>.
\<close>

definition insuranceShape :: "jsval \<Rightarrow> bool" where
  "insuranceShape u \<longleftrightarrow>
     readable u \<and>
     trimmable (field u ''insuranceCompany'') \<and>
     trimmable (field u ''policyNumber'') \<and>
     trimmable (field u ''planName'') \<and>
     convertible (field u ''rxBIN'') \<and>
     convertible (field u ''effectiveDate'') \<and>
     convertible (field u ''terminationDate'') \<and>
     convertible (field u ''deductibleMet'') \<and>
     convertible (field u ''deductible'') \<and>
     convertible (field u ''outOfPocketMet'') \<and>
     convertible (field u ''outOfPocketMax'')"

definition insuranceFieldErrors :: "engine \<Rightarrow> jsval \<Rightarrow> string list" where
  "insuranceFieldErrors E u =
     pushIf (\<not> truthy (field u ''userId'')) ''User ID is required'' @
     pushIf (blank (field u ''insuranceCompany'') = Some True) ''Insurance company name is required'' @
     pushIf (blank (field u ''policyNumber'') = Some True) ''Policy number is required'' @
     pushIf (\<not> truthy (field u ''planType'')) ''Plan type is required'' @
     pushIf (truthy (field u ''planType'') \<and> \<not> isValidPlanType (field u ''planType''))
       ''Invalid plan type. Must be one of: HMO, PPO, EPO, POS, HDHP'' @
     pushIf (blank (field u ''planName'') = Some True) ''Plan name is required'' @
     pushIf (\<not> truthy (field u ''rxBIN'')) ''RxBIN is required'' @
     pushIf (truthy (field u ''rxBIN'') \<and> isValidRxBIN E (field u ''rxBIN'') = Some False)
       ''RxBIN must be exactly 6 digits'' @
     pushIf (field u ''deductible'' \<noteq> JUndefined \<and> notNumberOrBelow (field u ''deductible'') 0)
       ''Deductible must be a non-negative number (in cents)'' @
     pushIf (field u ''deductibleMet'' \<noteq> JUndefined \<and> notNumberOrBelow (field u ''deductibleMet'') 0)
       ''Deductible met must be a non-negative number (in cents)'' @
     pushIf (field u ''outOfPocketMax'' \<noteq> JUndefined \<and> notNumberOrBelow (field u ''outOfPocketMax'') 0)
       ''Out of pocket max must be a non-negative number (in cents)'' @
     pushIf (field u ''outOfPocketMet'' \<noteq> JUndefined \<and> notNumberOrBelow (field u ''outOfPocketMet'') 0)
       ''Out of pocket met must be a non-negative number (in cents)'' @
     pushIf (\<not> truthy (field u ''effectiveDate'')) ''Effective date is required'' @
     pushIf (truthy (field u ''effectiveDate'') \<and> isValidDate E (field u ''effectiveDate'') = Some False)
       ''Effective date must be in YYYY-MM-DD format'' @
     pushIf (truthy (field u ''terminationDate'') \<and>
             isValidDate E (field u ''terminationDate'') = Some False)
       ''Termination date must be in YYYY-MM-DD format''"

definition insuranceCrossErrors :: "engine \<Rightarrow> jsval \<Rightarrow> string list" where
  "insuranceCrossErrors E u =
     pushIf (truthy (field u ''effectiveDate'') \<and> truthy (field u ''terminationDate'') \<and>
             dateNotAfter E (field u ''terminationDate'') (field u ''effectiveDate''))
       ''Termination date must be after effective date'' @
     pushIf (jsGreater E (field u ''deductibleMet'') (field u ''deductible'') = Some True)
       ''Deductible met cannot exceed total deductible'' @
     pushIf (jsGreater E (field u ''outOfPocketMet'') (field u ''outOfPocketMax'') = Some True)
       ''Out of pocket met cannot exceed out of pocket max''"

definition insuranceErrors :: "engine \<Rightarrow> jsval \<Rightarrow> string list" where
  "insuranceErrors E u = insuranceFieldErrors E u @ insuranceCrossErrors E u"

text \<open>
  The same for \<open>validatePrescription\<close>, justified by \<open>validatePrescription_Some_iff\<close>.
\<close>

definition strengthRequired :: string where
  \<open>strengthRequired = ''Medication strength is required (e.g., "500mg", "10mg/ml")''\<close>

definition prescriptionShape :: "jsval \<Rightarrow> bool" where
  "prescriptionShape u \<longleftrightarrow>
     readable u \<and>
     trimmable (field u ''medicationName'') \<and>
     trimmable (field u ''strength'') \<and>
     convertible (field u ''ndc'') \<and>
     trimmable (field u ''dosageInstructions'') \<and>
     (field u ''refillsRemaining'' \<noteq> JUndefined \<longrightarrow>
        convertible (field u ''refillsRemaining'') \<and> convertible (field u ''refillsAllowed'')) \<and>
     trimmable (field u ''prescriberName'') \<and>
     convertible (field u ''prescriberNPI'') \<and>
     convertible (field u ''prescribedDate'') \<and>
     convertible (field u ''pharmacyNPI'')"

definition prescriptionEarlyErrors :: "engine \<Rightarrow> jsval \<Rightarrow> string list" where
  "prescriptionEarlyErrors E u =
     pushIf (\<not> truthy (field u ''userId'')) ''User ID is required'' @
     pushIf (blank (field u ''medicationName'') = Some True) ''Medication name is required'' @
     pushIf (\<not> truthy (field u ''medicationForm'')) ''Medication form is required'' @
     pushIf (truthy (field u ''medicationForm'') \<and> \<not> isValidMedicationForm (field u ''medicationForm''))
       ''Invalid medication form. Must be one of: TABLET, CAPSULE, LIQUID, INJECTION, CREAM, INHALER, PATCH, OTHER'' @
     pushIf (blank (field u ''strength'') = Some True) strengthRequired @
     pushIf (truthy (field u ''ndc'') \<and> isValidNDC E (field u ''ndc'') = Some False)
       ''NDC must be in format: 12345-1234-12'' @
     pushIf (blank (field u ''dosageInstructions'') = Some True) ''Dosage instructions are required'' @
     pushIf (field u ''quantity'' = JUndefined \<or> field u ''quantity'' = JNull) ''Quantity is required'' @
     pushIf (field u ''quantity'' \<noteq> JUndefined \<and> field u ''quantity'' \<noteq> JNull \<and>
             notNumberOrBelow (field u ''quantity'') 1)
       ''Quantity must be a positive number'' @
     pushIf (field u ''daysSupply'' = JUndefined \<or> field u ''daysSupply'' = JNull)
       ''Days supply is required'' @
     pushIf (field u ''daysSupply'' \<noteq> JUndefined \<and> field u ''daysSupply'' \<noteq> JNull \<and>
             notNumberOrBelow (field u ''daysSupply'') 1)
       ''Days supply must be a positive number'' @
     pushIf (field u ''refillsAllowed'' = JUndefined \<or> field u ''refillsAllowed'' = JNull)
       ''Refills allowed is required'' @
     pushIf (field u ''refillsAllowed'' \<noteq> JUndefined \<and> field u ''refillsAllowed'' \<noteq> JNull \<and>
             notNumberOrBelow (field u ''refillsAllowed'') 0)
       ''Refills allowed must be a non-negative number''"

definition prescriptionRefillsErrors :: "engine \<Rightarrow> jsval \<Rightarrow> string list" where
  "prescriptionRefillsErrors E u =
     pushIf (field u ''refillsRemaining'' \<noteq> JUndefined \<and>
             notNumberOrBelow (field u ''refillsRemaining'') 0)
       ''Refills remaining must be a non-negative number'' @
     pushIf (field u ''refillsRemaining'' \<noteq> JUndefined \<and>
             jsGreater E (field u ''refillsRemaining'') (field u ''refillsAllowed'') = Some True)
       ''Refills remaining cannot exceed refills allowed''"

definition prescriptionLateErrors :: "engine \<Rightarrow> jsval \<Rightarrow> string list" where
  "prescriptionLateErrors E u =
     pushIf (blank (field u ''prescriberName'') = Some True) ''Prescriber name is required'' @
     pushIf (\<not> truthy (field u ''prescriberNPI'')) ''Prescriber NPI is required'' @
     pushIf (truthy (field u ''prescriberNPI'') \<and> isValidNPI E (field u ''prescriberNPI'') = Some False)
       ''Prescriber NPI must be exactly 10 digits'' @
     pushIf (\<not> truthy (field u ''prescribedDate'')) ''Prescribed date is required'' @
     pushIf (truthy (field u ''prescribedDate'') \<and> isValidDate E (field u ''prescribedDate'') = Some False)
       ''Prescribed date must be in YYYY-MM-DD format'' @
     pushIf (truthy (field u ''status'') \<and> \<not> isValidPrescriptionStatus (field u ''status''))
       ''Invalid prescription status. Must be one of: PENDING, SUBMITTED, APPROVED, DENIED, PRIOR_AUTH_REQUIRED, FILLED, PICKED_UP, CANCELLED'' @
     pushIf (truthy (field u ''pharmacyNPI'') \<and> isValidNPI E (field u ''pharmacyNPI'') = Some False)
       ''Pharmacy NPI must be exactly 10 digits''"

definition prescriptionErrors :: "engine \<Rightarrow> jsval \<Rightarrow> string list" where
  "prescriptionErrors E u =
     prescriptionEarlyErrors E u @ prescriptionRefillsErrors E u @ prescriptionLateErrors E u"

text \<open>
  A text field that is absent or empty after trimming: a falsy value, or a string that
  \<^verbatim>\<open>trim\<close> empties.
\<close>

fun emptyText :: "jsval \<Rightarrow> bool" where
  "emptyText (JStr s) = (trim s = [])"
| "emptyText v = (\<not> truthy v)"

text \<open>
  The result is invalid and reports the presence error \<open>req\<close>, and none of the format or
  range errors \<open>fmts\<close>.
\<close>

definition presenceOnly :: "validationResult \<Rightarrow> string \<Rightarrow> string list \<Rightarrow> bool" where
  "presenceOnly r req fmts \<longleftrightarrow>
     \<not> isValid r \<and> req \<in> set (errors r) \<and> list_all (\<lambda>m. m \<notin> set (errors r)) fmts"

text \<open>
  A non-empty string of whitespace only. It is truthy, and \<^verbatim>\<open>trim\<close> empties it
  (\<open>whitespaceOnly_trim\<close> below).
\<close>

fun whitespaceOnly :: "jsval \<Rightarrow> bool" where
  "whitespaceOnly (JStr s) = (s \<noteq> [] \<and> list_all isSpace s)"
| "whitespaceOnly v = False"

text \<open>
  The result is invalid and reports the format error \<open>fmt\<close>, and not the presence error
  \<open>req\<close>.
\<close>

definition formatOnly :: "validationResult \<Rightarrow> string \<Rightarrow> string \<Rightarrow> bool" where
  "formatOnly r req fmt \<longleftrightarrow> \<not> isValid r \<and> fmt \<in> set (errors r) \<and> req \<notin> set (errors r)"

text \<open>
  In the list \<open>xs\<close> every \<open>x\<close> comes before every \<open>y\<close>: no occurrence of \<open>y\<close> is followed
  by an occurrence of \<open>x\<close>.
\<close>

fun precedes :: "'a list \<Rightarrow> 'a \<Rightarrow> 'a \<Rightarrow> bool" where
  "precedes [] x y = True"
| "precedes (z # zs) x y = ((z = y \<longrightarrow> x \<notin> set zs) \<and> precedes zs x y)"

section \<open>The language of a pattern\<close>

text \<open>The strings a pattern matches as a whole; \<open>matches_iff\<close> relates it to \<open>rmatch\<close>.\<close>

primrec lang :: "regex \<Rightarrow> string set" where
  "lang Eps = {[]}"
| "lang (One k) = {[c] | c. inClass k c}"
| "lang (Seq a b) = {p @ q | p q. p \<in> lang a \<and> q \<in> lang b}"
| "lang (Opt a) = insert [] (lang a)"
| "lang (Many1 k) = {p. p \<noteq> [] \<and> list_all (inClass k) p}"
| "lang (Times k lo hi) = {p. lo \<le> length p \<and> length p \<le> hi \<and> list_all (inClass k) p}"

section \<open>Auxiliary lemmas\<close>

lemmas userBlocks =
  validateUser_def emailErrors_def firstNameErrors_def lastNameErrors_def dateOfBirthErrors_def
  phoneNumberErrors_def addressErrors_def streetErrors_def cityErrors_def stateErrors_def
  zipCodeErrors_def blank_def finish_def

subsection \<open>When a conversion throws\<close>

lemma toStringJS_None_iff: "toStringJS E v = None \<longleftrightarrow> \<not> convertible v"
  by (cases v) (simp_all add: objectToPrimitive_def)

lemma regexTest_None_iff: "regexTest E r v = None \<longleftrightarrow> \<not> convertible v"
  by (simp add: regexTest_def Option.bind_eq_None_conv toStringJS_None_iff)

lemma not_date_object: "\<not> matches dateRegex ''[object Object]''"
  by code_simp

lemma newDate_None_iff: "newDate E v = None \<longleftrightarrow> \<not> convertible v"
  by (cases v) (simp_all add: objectToPrimitive_def)

lemma isValidDate_None_iff: "isValidDate E v = None \<longleftrightarrow> \<not> convertible v"
proof (cases "convertible v")
  case False
  then show ?thesis using regexTest_None_iff [of E dateRegex v] by (simp add: isValidDate_def)
next
  case True
  then obtain b where b: "regexTest E dateRegex v = Some b"
    using regexTest_None_iff [of E dateRegex v] by auto
  from True obtain t where t: "newDate E v = Some t"
    using newDate_None_iff [of E v] by auto
  show ?thesis using True b t by (auto simp: isValidDate_def)
qed

subsection \<open>State codes in either letter case\<close>

lemma letters_upperUnits:
  "\<forall>c\<in>set (lowerLetters @ upperLetters). upperUnits c = [of_char (asciiUpper c)]"
  by (simp add: lowerLetters_def upperLetters_def upperUnits_def asciiUpper_def)

lemma asciiUpper_letter:
  "asciiUpper c \<in> set upperLetters \<Longrightarrow> c \<in> set (lowerLetters @ upperLetters)"
  unfolding asciiUpper_def
  by (cases "map_of (zip lowerLetters upperLetters) c") (auto dest!: map_of_SomeD set_zip_leftD)

lemma upperUnits_letter:
  "asciiUpper c \<in> set upperLetters \<Longrightarrow> upperUnits c = [of_char (asciiUpper c)]"
  using letters_upperUnits asciiUpper_letter by blast

lemma validStates_upper: "\<forall>code\<in>set validStates. set code \<subseteq> set upperLetters"
  by code_simp

lemma toUpperCase_ascii:
  assumes "set (map asciiUpper s) \<subseteq> set upperLetters"
  shows "toUpperCase s = units (map asciiUpper s)"
  using assms
proof (induction s)
  case Nil
  then show ?case by (simp add: toUpperCase_def units_def)
next
  case (Cons c s)
  then have "upperUnits c = [of_char (asciiUpper c)]"
    by (intro upperUnits_letter) simp
  with Cons show ?case by (simp add: toUpperCase_def units_def)
qed

lemma isValidStateCode_any_case:
  assumes "map asciiUpper s \<in> set validStates"
  shows "isValidStateCode (JStr s) = Some True"
proof -
  have "toUpperCase s = units (map asciiUpper s)"
    using validStates_upper assms by (intro toUpperCase_ascii) blast
  then show ?thesis using assms by simp
qed

lemma matches_feb31: "matches dateRegex ''2023-02-31''"
  by code_simp

subsection \<open>The shapes of the blocks\<close>

lemma getProp_Some_iff: "getProp v k = Some x \<longleftrightarrow> readable v \<and> x = field v k"
  by (cases v) (auto simp: readable_def field_def)

lemma getProp_readable: "readable v \<Longrightarrow> getProp v k = Some (field v k)"
  by (simp add: getProp_Some_iff)

lemma getProp_unreadable: "\<not> readable v \<Longrightarrow> getProp v k = None"
  by (cases v) (simp_all add: readable_def)

lemma truthy_readable: "truthy v \<Longrightarrow> readable v"
  by (cases v) (simp_all add: readable_def)

lemma mem_pushIf [simp]: "m \<in> set (pushIf c x) \<longleftrightarrow> c \<and> m = x"
  by (cases c) (simp_all add: pushIf_def)

lemma pushIf_Nil [simp]: "pushIf c x = [] \<longleftrightarrow> \<not> c"
  by (cases c) (simp_all add: pushIf_def)

lemma pushIf_True [simp]: "pushIf True x = [x]"
  by (simp add: pushIf_def)

lemma pushIf_False [simp]: "pushIf False x = []"
  by (simp add: pushIf_def)

text \<open>A required field with a format check.\<close>

lemma checked_shape:
  "(getProp u k \<bind> (\<lambda>x. if \<not> truthy x then Some [req]
       else chk x \<bind> (\<lambda>ok. Some (if \<not> ok then [fmt] else [])))) = Some e \<longleftrightarrow>
   readable u \<and> (truthy (field u k) \<longrightarrow> chk (field u k) \<noteq> None) \<and>
   e = pushIf (\<not> truthy (field u k)) req @
       pushIf (truthy (field u k) \<and> chk (field u k) = Some False) fmt"
proof (cases "readable u")
  case False
  then show ?thesis by (simp add: getProp_unreadable)
next
  case True
  show ?thesis
    unfolding getProp_readable [OF True]
    by (cases "truthy (field u k)"; cases "chk (field u k)") (use True in auto)
qed

text \<open>A required text field, tested after trimming.\<close>

lemma blank_shape:
  "(getProp u k \<bind> (\<lambda>x. blank x \<bind> (\<lambda>b. Some (if b then [req] else [])))) = Some e \<longleftrightarrow>
   readable u \<and> blank (field u k) \<noteq> None \<and> e = pushIf (blank (field u k) = Some True) req"
proof (cases "readable u")
  case False
  then show ?thesis by (simp add: getProp_unreadable)
next
  case True
  show ?thesis
    unfolding getProp_readable [OF True]
    by (cases "blank (field u k)") (use True in auto)
qed

lemma name_shape:
  "(getProp u k \<bind> (\<lambda>x. blank x \<bind> (\<lambda>b. if b then Some [req]
       else if lengthGt x n then Some [long] else Some []))) = Some e \<longleftrightarrow>
   readable u \<and> blank (field u k) \<noteq> None \<and>
   e = pushIf (blank (field u k) = Some True) req @
       pushIf (blank (field u k) = Some False \<and> lengthGt (field u k) n) long"
proof (cases "readable u")
  case False
  then show ?thesis by (simp add: getProp_unreadable)
next
  case True
  show ?thesis
    unfolding getProp_readable [OF True]
    by (cases "blank (field u k)"; cases "lengthGt (field u k) n") (use True in auto)
qed

text \<open>An optional field with a format check.\<close>

lemma optional_shape:
  "(getProp u k \<bind> (\<lambda>x. if truthy x
       then chk x \<bind> (\<lambda>ok. Some (if \<not> ok then [fmt] else [])) else Some [])) = Some e \<longleftrightarrow>
   readable u \<and> (truthy (field u k) \<longrightarrow> chk (field u k) \<noteq> None) \<and>
   e = pushIf (truthy (field u k) \<and> chk (field u k) = Some False) fmt"
proof (cases "readable u")
  case False
  then show ?thesis by (simp add: getProp_unreadable)
next
  case True
  show ?thesis
    unfolding getProp_readable [OF True]
    by (cases "truthy (field u k)"; cases "chk (field u k)") (use True in auto)
qed

text \<open>Blocks that read one field and cannot throw on it.\<close>

lemma falsy_shape:
  "(getProp u k \<bind> (\<lambda>x. Some (if \<not> truthy x then [req] else []))) = Some e \<longleftrightarrow>
   readable u \<and> e = pushIf (\<not> truthy (field u k)) req"
proof (cases "readable u")
  case False
  then show ?thesis by (simp add: getProp_unreadable)
next
  case True
  show ?thesis
    unfolding getProp_readable [OF True]
    by (cases "truthy (field u k)") (use True in auto)
qed

lemma vocabulary_shape:
  "(getProp u k \<bind> (\<lambda>x. Some (if \<not> truthy x then [req] else if \<not> p x then [fmt] else []))) = Some e \<longleftrightarrow>
   readable u \<and>
   e = pushIf (\<not> truthy (field u k)) req @ pushIf (truthy (field u k) \<and> \<not> p (field u k)) fmt"
proof (cases "readable u")
  case False
  then show ?thesis by (simp add: getProp_unreadable)
next
  case True
  show ?thesis
    unfolding getProp_readable [OF True]
    by (cases "truthy (field u k)"; cases "p (field u k)") (use True in auto)
qed

lemma optional_vocabulary_shape:
  "(getProp u k \<bind> (\<lambda>x. Some (if truthy x \<and> \<not> p x then [fmt] else []))) = Some e \<longleftrightarrow>
   readable u \<and> e = pushIf (truthy (field u k) \<and> \<not> p (field u k)) fmt"
proof (cases "readable u")
  case False
  then show ?thesis by (simp add: getProp_unreadable)
next
  case True
  show ?thesis
    unfolding getProp_readable [OF True]
    by (cases "truthy (field u k)"; cases "p (field u k)") (use True in auto)
qed

lemma amountErrors_Some_iff:
  "amountErrors u k msg = Some e \<longleftrightarrow>
   readable u \<and> e = pushIf (field u k \<noteq> JUndefined \<and> notNumberOrBelow (field u k) 0) msg"
proof (cases "readable u")
  case False
  then show ?thesis by (simp add: amountErrors_def getProp_unreadable)
next
  case True
  show ?thesis
    unfolding amountErrors_def getProp_readable [OF True]
    by (cases "field u k \<noteq> JUndefined \<and> notNumberOrBelow (field u k) 0") (use True in auto)
qed

lemma countErrors_Some_iff:
  "countErrors u k lowest req rng = Some e \<longleftrightarrow>
   readable u \<and>
   e = pushIf (field u k = JUndefined \<or> field u k = JNull) req @
       pushIf (field u k \<noteq> JUndefined \<and> field u k \<noteq> JNull \<and> notNumberOrBelow (field u k) lowest) rng"
proof (cases "readable u")
  case False
  then show ?thesis by (simp add: countErrors_def getProp_unreadable)
next
  case True
  show ?thesis
    unfolding countErrors_def getProp_readable [OF True]
    by (cases "field u k = JUndefined \<or> field u k = JNull"; cases "notNumberOrBelow (field u k) lowest")
      (use True in auto)
qed

subsection \<open>When a block throws\<close>

lemma falsy_convertible: "\<not> truthy v \<Longrightarrow> convertible v"
  by (cases v) simp_all

lemma blank_None_iff: "blank v = None \<longleftrightarrow> \<not> trimmable v"
  by (cases v) (auto simp: blank_def)

lemma checked_returns:
  "(truthy v \<longrightarrow> regexTest E r v \<noteq> None) \<longleftrightarrow> convertible v"
  using regexTest_None_iff [of E r v] falsy_convertible [of v] by auto

lemma date_returns:
  "(truthy v \<longrightarrow> isValidDate E v \<noteq> None) \<longleftrightarrow> convertible v"
  using isValidDate_None_iff [of E v] falsy_convertible [of v] by auto

lemma state_returns:
  "(truthy v \<longrightarrow> isValidStateCode v \<noteq> None) \<longleftrightarrow> trimmable v"
  by (cases v) simp_all

lemma format_returns:
  "(truthy v \<longrightarrow> isValidEmail E v \<noteq> None) \<longleftrightarrow> convertible v"
  "(truthy v \<longrightarrow> isValidPhoneNumber E v \<noteq> None) \<longleftrightarrow> convertible v"
  "(truthy v \<longrightarrow> isValidZipCode E v \<noteq> None) \<longleftrightarrow> convertible v"
  "(truthy v \<longrightarrow> isValidRxBIN E v \<noteq> None) \<longleftrightarrow> convertible v"
  "(truthy v \<longrightarrow> isValidNDC E v \<noteq> None) \<longleftrightarrow> convertible v"
  "(truthy v \<longrightarrow> isValidNPI E v \<noteq> None) \<longleftrightarrow> convertible v"
  unfolding isValidEmail_def isValidPhoneNumber_def isValidZipCode_def isValidRxBIN_def
    isValidNDC_def isValidNPI_def
  by (rule checked_returns)+

lemmas returns_simps = format_returns date_returns state_returns blank_None_iff

subsection \<open>The blocks of validateUser\<close>

lemma emailErrors_Some_iff:
  "emailErrors E u = Some e \<longleftrightarrow>
   readable u \<and> convertible (field u ''email'') \<and>
   e = pushIf (\<not> truthy (field u ''email'')) ''Email is required'' @
       pushIf (truthy (field u ''email'') \<and> isValidEmail E (field u ''email'') = Some False)
         ''Invalid email format''"
  unfolding emailErrors_def checked_shape returns_simps by (rule refl)

lemma firstNameErrors_Some_iff:
  "firstNameErrors u = Some e \<longleftrightarrow>
   readable u \<and> trimmable (field u ''firstName'') \<and>
   e = pushIf (blank (field u ''firstName'') = Some True) ''First name is required'' @
       pushIf (blank (field u ''firstName'') = Some False \<and> lengthGt (field u ''firstName'') 100)
         ''First name must be 100 characters or less''"
  unfolding firstNameErrors_def name_shape returns_simps not_not by (rule refl)

lemma lastNameErrors_Some_iff:
  "lastNameErrors u = Some e \<longleftrightarrow>
   readable u \<and> trimmable (field u ''lastName'') \<and>
   e = pushIf (blank (field u ''lastName'') = Some True) ''Last name is required'' @
       pushIf (blank (field u ''lastName'') = Some False \<and> lengthGt (field u ''lastName'') 100)
         ''Last name must be 100 characters or less''"
  unfolding lastNameErrors_def name_shape returns_simps not_not by (rule refl)

lemma dateOfBirthErrors_Some_iff:
  "dateOfBirthErrors E u = Some e \<longleftrightarrow>
   readable u \<and> convertible (field u ''dateOfBirth'') \<and>
   e = pushIf (\<not> truthy (field u ''dateOfBirth'')) ''Date of birth is required'' @
       pushIf (truthy (field u ''dateOfBirth'') \<and> isValidDate E (field u ''dateOfBirth'') = Some False)
         ''Date of birth must be in YYYY-MM-DD format''"
  unfolding dateOfBirthErrors_def checked_shape returns_simps by (rule refl)

lemma phoneNumberErrors_Some_iff:
  "phoneNumberErrors E u = Some e \<longleftrightarrow>
   readable u \<and>
   convertible (field u ''phoneNumber'') \<and>
   e = pushIf (\<not> truthy (field u ''phoneNumber'')) ''Phone number is required'' @
       pushIf (truthy (field u ''phoneNumber'') \<and>
               isValidPhoneNumber E (field u ''phoneNumber'') = Some False)
         ''Invalid phone number format''"
  unfolding phoneNumberErrors_def checked_shape returns_simps by (rule refl)

lemma streetErrors_Some_iff:
  "streetErrors a = Some e \<longleftrightarrow>
   readable a \<and> trimmable (field a ''street'') \<and>
   e = pushIf (blank (field a ''street'') = Some True) ''Street address is required''"
  unfolding streetErrors_def blank_shape returns_simps not_not by (rule refl)

lemma cityErrors_Some_iff:
  "cityErrors a = Some e \<longleftrightarrow>
   readable a \<and> trimmable (field a ''city'') \<and>
   e = pushIf (blank (field a ''city'') = Some True) ''City is required''"
  unfolding cityErrors_def blank_shape returns_simps not_not by (rule refl)

lemma stateErrors_Some_iff:
  "stateErrors a = Some e \<longleftrightarrow>
   readable a \<and> trimmable (field a ''state'') \<and>
   e = pushIf (\<not> truthy (field a ''state'')) ''State is required'' @
       pushIf (truthy (field a ''state'') \<and> isValidStateCode (field a ''state'') = Some False)
         ''Invalid state code (must be 2-letter code like CA, NY)''"
  unfolding stateErrors_def checked_shape returns_simps by (rule refl)

lemma zipCodeErrors_Some_iff:
  "zipCodeErrors E a = Some e \<longleftrightarrow>
   readable a \<and> convertible (field a ''zipCode'') \<and>
   e = pushIf (\<not> truthy (field a ''zipCode'')) ''ZIP code is required'' @
       pushIf (truthy (field a ''zipCode'') \<and> isValidZipCode E (field a ''zipCode'') = Some False)
         ''Invalid ZIP code format''"
  unfolding zipCodeErrors_def checked_shape returns_simps by (rule refl)

lemma addressErrors_Some_iff:
  "addressErrors E u = Some e \<longleftrightarrow>
   readable u \<and>
   (truthy (field u ''address'') \<longrightarrow>
      trimmable (field (field u ''address'') ''street'') \<and>
      trimmable (field (field u ''address'') ''city'') \<and>
      trimmable (field (field u ''address'') ''state'') \<and>
      convertible (field (field u ''address'') ''zipCode'')) \<and>
   e = pushIf (\<not> truthy (field u ''address'')) ''Address is required'' @
       pushIf (truthy (field u ''address'') \<and>
               blank (field (field u ''address'') ''street'') = Some True)
         ''Street address is required'' @
       pushIf (truthy (field u ''address'') \<and>
               blank (field (field u ''address'') ''city'') = Some True)
         ''City is required'' @
       pushIf (truthy (field u ''address'') \<and> \<not> truthy (field (field u ''address'') ''state''))
         ''State is required'' @
       pushIf (truthy (field u ''address'') \<and> truthy (field (field u ''address'') ''state'') \<and>
               isValidStateCode (field (field u ''address'') ''state'') = Some False)
         ''Invalid state code (must be 2-letter code like CA, NY)'' @
       pushIf (truthy (field u ''address'') \<and> \<not> truthy (field (field u ''address'') ''zipCode''))
         ''ZIP code is required'' @
       pushIf (truthy (field u ''address'') \<and> truthy (field (field u ''address'') ''zipCode'') \<and>
               isValidZipCode E (field (field u ''address'') ''zipCode'') = Some False)
         ''Invalid ZIP code format''"
proof (cases "readable u")
  case False
  then show ?thesis by (simp add: addressErrors_def getProp_unreadable)
next
  case True
  show ?thesis
  proof (cases "truthy (field u ''address'')")
    case False
    then show ?thesis
      unfolding addressErrors_def getProp_readable [OF True] using True by auto
  next
    case addr: True
    then show ?thesis
      unfolding addressErrors_def getProp_readable [OF True]
      using True truthy_readable [OF addr]
      by (auto simp: Option.bind_eq_Some_conv streetErrors_Some_iff cityErrors_Some_iff
          stateErrors_Some_iff zipCodeErrors_Some_iff returns_simps)
  qed
qed

lemma validateUser_Some_iff:
  "validateUser E u = Some r \<longleftrightarrow> userShape u \<and> r = finish (userErrors E u)"
  unfolding validateUser_def userShape_def userErrors_def
  by (auto simp: Option.bind_eq_Some_conv emailErrors_Some_iff firstNameErrors_Some_iff
      lastNameErrors_Some_iff dateOfBirthErrors_Some_iff phoneNumberErrors_Some_iff
      addressErrors_Some_iff returns_simps)

subsection \<open>The blocks of validateInsurance\<close>

lemma planTypeMessage:
  "''Invalid plan type. Must be one of: '' @ join '', '' (objectValues InsurancePlanType) =
   ''Invalid plan type. Must be one of: HMO, PPO, EPO, POS, HDHP''"
  by (simp add: objectValues_def InsurancePlanType_def)

lemma toPrimitive_None_iff: "toPrimitive v = None \<longleftrightarrow> \<not> convertible v"
  by (cases v) (simp_all add: objectToPrimitive_def)

lemma jsGreater_None_iff: "jsGreater E a b = None \<longleftrightarrow> \<not> (convertible a \<and> convertible b)"
  by (auto simp: jsGreater_def Option.bind_eq_None_conv toPrimitive_None_iff)

lemma insUserIdErrors_Some_iff:
  "insUserIdErrors u = Some e \<longleftrightarrow>
   readable u \<and> e = pushIf (\<not> truthy (field u ''userId'')) ''User ID is required''"
  unfolding insUserIdErrors_def falsy_shape by (rule refl)

lemma insuranceCompanyErrors_Some_iff:
  "insuranceCompanyErrors u = Some e \<longleftrightarrow>
   readable u \<and> trimmable (field u ''insuranceCompany'') \<and>
   e = pushIf (blank (field u ''insuranceCompany'') = Some True) ''Insurance company name is required''"
  unfolding insuranceCompanyErrors_def blank_shape returns_simps not_not by (rule refl)

lemma policyNumberErrors_Some_iff:
  "policyNumberErrors u = Some e \<longleftrightarrow>
   readable u \<and> trimmable (field u ''policyNumber'') \<and>
   e = pushIf (blank (field u ''policyNumber'') = Some True) ''Policy number is required''"
  unfolding policyNumberErrors_def blank_shape returns_simps not_not by (rule refl)

lemma planTypeErrors_Some_iff:
  "planTypeErrors u = Some e \<longleftrightarrow>
   readable u \<and>
   e = pushIf (\<not> truthy (field u ''planType'')) ''Plan type is required'' @
       pushIf (truthy (field u ''planType'') \<and> \<not> isValidPlanType (field u ''planType''))
         ''Invalid plan type. Must be one of: HMO, PPO, EPO, POS, HDHP''"
  unfolding planTypeErrors_def planTypeMessage vocabulary_shape by (rule refl)

lemma planNameErrors_Some_iff:
  "planNameErrors u = Some e \<longleftrightarrow>
   readable u \<and> trimmable (field u ''planName'') \<and>
   e = pushIf (blank (field u ''planName'') = Some True) ''Plan name is required''"
  unfolding planNameErrors_def blank_shape returns_simps not_not by (rule refl)

lemma rxBINErrors_Some_iff:
  "rxBINErrors E u = Some e \<longleftrightarrow>
   readable u \<and> convertible (field u ''rxBIN'') \<and>
   e = pushIf (\<not> truthy (field u ''rxBIN'')) ''RxBIN is required'' @
       pushIf (truthy (field u ''rxBIN'') \<and> isValidRxBIN E (field u ''rxBIN'') = Some False)
         ''RxBIN must be exactly 6 digits''"
  unfolding rxBINErrors_def checked_shape returns_simps by (rule refl)

lemma effectiveDateErrors_Some_iff:
  "effectiveDateErrors E u = Some e \<longleftrightarrow>
   readable u \<and> convertible (field u ''effectiveDate'') \<and>
   e = pushIf (\<not> truthy (field u ''effectiveDate'')) ''Effective date is required'' @
       pushIf (truthy (field u ''effectiveDate'') \<and> isValidDate E (field u ''effectiveDate'') = Some False)
         ''Effective date must be in YYYY-MM-DD format''"
  unfolding effectiveDateErrors_def checked_shape returns_simps by (rule refl)

lemma terminationDateErrors_Some_iff:
  "terminationDateErrors E u = Some e \<longleftrightarrow>
   readable u \<and> convertible (field u ''terminationDate'') \<and>
   e = pushIf (truthy (field u ''terminationDate'') \<and>
               isValidDate E (field u ''terminationDate'') = Some False)
         ''Termination date must be in YYYY-MM-DD format''"
  unfolding terminationDateErrors_def optional_shape returns_simps by (rule refl)

lemma dateOrderErrors_Some_iff:
  "dateOrderErrors E u = Some e \<longleftrightarrow>
   readable u \<and>
   (truthy (field u ''effectiveDate'') \<and> truthy (field u ''terminationDate'') \<longrightarrow>
      convertible (field u ''effectiveDate'') \<and> convertible (field u ''terminationDate'')) \<and>
   e = pushIf (truthy (field u ''effectiveDate'') \<and> truthy (field u ''terminationDate'') \<and>
               dateNotAfter E (field u ''terminationDate'') (field u ''effectiveDate''))
         ''Termination date must be after effective date''"
proof (cases "readable u")
  case False
  then show ?thesis by (simp add: dateOrderErrors_def getProp_unreadable)
next
  case True
  show ?thesis
  proof (cases "truthy (field u ''effectiveDate'') \<and> truthy (field u ''terminationDate'')")
    case False
    then show ?thesis
      unfolding dateOrderErrors_def getProp_readable [OF True] using True by auto
  next
    case both: True
    show ?thesis
    proof (cases "newDate E (field u ''effectiveDate'')")
      case None
      then show ?thesis
        unfolding dateOrderErrors_def getProp_readable [OF True]
        using both newDate_None_iff [of E "field u ''effectiveDate''"] by simp
    next
      case a: (Some a)
      show ?thesis
      proof (cases "newDate E (field u ''terminationDate'')")
        case None
        then show ?thesis
          unfolding dateOrderErrors_def getProp_readable [OF True]
          using both a newDate_None_iff [of E "field u ''terminationDate''"] by simp
      next
        case b: (Some b)
        have "convertible (field u ''effectiveDate'')" "convertible (field u ''terminationDate'')"
          using a b newDate_None_iff [of E "field u ''effectiveDate''"]
            newDate_None_iff [of E "field u ''terminationDate''"] by auto
        then show ?thesis
          unfolding dateOrderErrors_def getProp_readable [OF True]
          using True both a b by (cases "numLe b a") (auto simp: dateNotAfter_def)
      qed
    qed
  qed
qed

lemma ceiling_shape:
  "(getProp u k \<bind> (\<lambda>x. getProp u k' \<bind> (\<lambda>y. jsGreater E x y \<bind>
       (\<lambda>gt. Some (if gt then [msg] else []))))) = Some e \<longleftrightarrow>
   readable u \<and> convertible (field u k) \<and> convertible (field u k') \<and>
   e = pushIf (jsGreater E (field u k) (field u k') = Some True) msg"
proof (cases "readable u")
  case False
  then show ?thesis by (simp add: getProp_unreadable)
next
  case True
  show ?thesis
  proof (cases "jsGreater E (field u k) (field u k')")
    case None
    then show ?thesis
      unfolding getProp_readable [OF True]
      using jsGreater_None_iff [of E "field u k" "field u k'"] by auto
  next
    case (Some gt)
    then show ?thesis
      unfolding getProp_readable [OF True]
      using True jsGreater_None_iff [of E "field u k" "field u k'"] by (cases gt) auto
  qed
qed

lemma deductibleCeilingErrors_Some_iff:
  "deductibleCeilingErrors E u = Some e \<longleftrightarrow>
   readable u \<and> convertible (field u ''deductibleMet'') \<and> convertible (field u ''deductible'') \<and>
   e = pushIf (jsGreater E (field u ''deductibleMet'') (field u ''deductible'') = Some True)
         ''Deductible met cannot exceed total deductible''"
  unfolding deductibleCeilingErrors_def by (rule ceiling_shape)

lemma outOfPocketCeilingErrors_Some_iff:
  "outOfPocketCeilingErrors E u = Some e \<longleftrightarrow>
   readable u \<and> convertible (field u ''outOfPocketMet'') \<and> convertible (field u ''outOfPocketMax'') \<and>
   e = pushIf (jsGreater E (field u ''outOfPocketMet'') (field u ''outOfPocketMax'') = Some True)
         ''Out of pocket met cannot exceed out of pocket max''"
  unfolding outOfPocketCeilingErrors_def by (rule ceiling_shape)

lemmas insuranceBlocks_Some_iff =
  insUserIdErrors_Some_iff insuranceCompanyErrors_Some_iff policyNumberErrors_Some_iff
  planTypeErrors_Some_iff planNameErrors_Some_iff rxBINErrors_Some_iff
  amountErrors_Some_iff effectiveDateErrors_Some_iff terminationDateErrors_Some_iff
  dateOrderErrors_Some_iff deductibleCeilingErrors_Some_iff outOfPocketCeilingErrors_Some_iff

lemmas insuranceErrors_defs =
  insuranceErrors_def insuranceFieldErrors_def insuranceCrossErrors_def

lemma validateInsurance_Some_iff:
  "validateInsurance E u = Some r \<longleftrightarrow> insuranceShape u \<and> r = finish (insuranceErrors E u)"
  unfolding validateInsurance_def insuranceShape_def insuranceErrors_defs
    deductibleErrors_def deductibleMetErrors_def outOfPocketMaxErrors_def outOfPocketMetErrors_def
  by (auto simp: Option.bind_eq_Some_conv insuranceBlocks_Some_iff)

subsection \<open>The blocks of validatePrescription\<close>

lemma medicationFormMessage:
  "''Invalid medication form. Must be one of: '' @ join '', '' (objectValues MedicationForm) =
   ''Invalid medication form. Must be one of: TABLET, CAPSULE, LIQUID, INJECTION, CREAM, INHALER, PATCH, OTHER''"
  by (simp add: objectValues_def MedicationForm_def)

lemma prescriptionStatusMessage:
  "''Invalid prescription status. Must be one of: '' @ join '', '' (objectValues PrescriptionStatus) =
   ''Invalid prescription status. Must be one of: PENDING, SUBMITTED, APPROVED, DENIED, PRIOR_AUTH_REQUIRED, FILLED, PICKED_UP, CANCELLED''"
  by (simp add: objectValues_def PrescriptionStatus_def)

lemma rxUserIdErrors_Some_iff:
  "rxUserIdErrors u = Some e \<longleftrightarrow>
   readable u \<and> e = pushIf (\<not> truthy (field u ''userId'')) ''User ID is required''"
  unfolding rxUserIdErrors_def falsy_shape by (rule refl)

lemma medicationNameErrors_Some_iff:
  "medicationNameErrors u = Some e \<longleftrightarrow>
   readable u \<and> trimmable (field u ''medicationName'') \<and>
   e = pushIf (blank (field u ''medicationName'') = Some True) ''Medication name is required''"
  unfolding medicationNameErrors_def blank_shape returns_simps not_not by (rule refl)

lemma medicationFormErrors_Some_iff:
  "medicationFormErrors u = Some e \<longleftrightarrow>
   readable u \<and>
   e = pushIf (\<not> truthy (field u ''medicationForm'')) ''Medication form is required'' @
       pushIf (truthy (field u ''medicationForm'') \<and> \<not> isValidMedicationForm (field u ''medicationForm''))
         ''Invalid medication form. Must be one of: TABLET, CAPSULE, LIQUID, INJECTION, CREAM, INHALER, PATCH, OTHER''"
  unfolding medicationFormErrors_def medicationFormMessage vocabulary_shape by (rule refl)

lemma strengthErrors_Some_iff:
  "strengthErrors u = Some e \<longleftrightarrow>
   readable u \<and> trimmable (field u ''strength'') \<and>
   e = pushIf (blank (field u ''strength'') = Some True) strengthRequired"
  unfolding strengthErrors_def strengthRequired_def blank_shape returns_simps not_not by (rule refl)

lemma ndcErrors_Some_iff:
  "ndcErrors E u = Some e \<longleftrightarrow>
   readable u \<and> convertible (field u ''ndc'') \<and>
   e = pushIf (truthy (field u ''ndc'') \<and> isValidNDC E (field u ''ndc'') = Some False)
         ''NDC must be in format: 12345-1234-12''"
  unfolding ndcErrors_def optional_shape returns_simps by (rule refl)

lemma dosageInstructionsErrors_Some_iff:
  "dosageInstructionsErrors u = Some e \<longleftrightarrow>
   readable u \<and> trimmable (field u ''dosageInstructions'') \<and>
   e = pushIf (blank (field u ''dosageInstructions'') = Some True) ''Dosage instructions are required''"
  unfolding dosageInstructionsErrors_def blank_shape returns_simps not_not by (rule refl)

lemma refillsRemainingErrors_Some_iff:
  "refillsRemainingErrors E u = Some e \<longleftrightarrow>
   readable u \<and>
   (field u ''refillsRemaining'' \<noteq> JUndefined \<longrightarrow>
      convertible (field u ''refillsRemaining'') \<and> convertible (field u ''refillsAllowed'')) \<and>
   e = pushIf (field u ''refillsRemaining'' \<noteq> JUndefined \<and>
               notNumberOrBelow (field u ''refillsRemaining'') 0)
         ''Refills remaining must be a non-negative number'' @
       pushIf (field u ''refillsRemaining'' \<noteq> JUndefined \<and>
               jsGreater E (field u ''refillsRemaining'') (field u ''refillsAllowed'') = Some True)
         ''Refills remaining cannot exceed refills allowed''"
proof (cases "readable u")
  case False
  then show ?thesis by (simp add: refillsRemainingErrors_def getProp_unreadable)
next
  case True
  show ?thesis
  proof (cases "field u ''refillsRemaining'' = JUndefined")
    case absent: True
    then show ?thesis
      unfolding refillsRemainingErrors_def getProp_readable [OF True] using True by auto
  next
    case present: False
    show ?thesis
    proof (cases "jsGreater E (field u ''refillsRemaining'') (field u ''refillsAllowed'')")
      case None
      then show ?thesis
        unfolding refillsRemainingErrors_def getProp_readable [OF True]
        using present jsGreater_None_iff [of E "field u ''refillsRemaining''" "field u ''refillsAllowed''"]
        by auto
    next
      case (Some gt)
      then show ?thesis
        unfolding refillsRemainingErrors_def getProp_readable [OF True]
        using True present
          jsGreater_None_iff [of E "field u ''refillsRemaining''" "field u ''refillsAllowed''"]
        by (cases gt; cases "notNumberOrBelow (field u ''refillsRemaining'') 0") auto
    qed
  qed
qed

lemma prescriberNameErrors_Some_iff:
  "prescriberNameErrors u = Some e \<longleftrightarrow>
   readable u \<and> trimmable (field u ''prescriberName'') \<and>
   e = pushIf (blank (field u ''prescriberName'') = Some True) ''Prescriber name is required''"
  unfolding prescriberNameErrors_def blank_shape returns_simps not_not by (rule refl)

lemma prescriberNPIErrors_Some_iff:
  "prescriberNPIErrors E u = Some e \<longleftrightarrow>
   readable u \<and> convertible (field u ''prescriberNPI'') \<and>
   e = pushIf (\<not> truthy (field u ''prescriberNPI'')) ''Prescriber NPI is required'' @
       pushIf (truthy (field u ''prescriberNPI'') \<and> isValidNPI E (field u ''prescriberNPI'') = Some False)
         ''Prescriber NPI must be exactly 10 digits''"
  unfolding prescriberNPIErrors_def checked_shape returns_simps by (rule refl)

lemma prescribedDateErrors_Some_iff:
  "prescribedDateErrors E u = Some e \<longleftrightarrow>
   readable u \<and> convertible (field u ''prescribedDate'') \<and>
   e = pushIf (\<not> truthy (field u ''prescribedDate'')) ''Prescribed date is required'' @
       pushIf (truthy (field u ''prescribedDate'') \<and> isValidDate E (field u ''prescribedDate'') = Some False)
         ''Prescribed date must be in YYYY-MM-DD format''"
  unfolding prescribedDateErrors_def checked_shape returns_simps by (rule refl)

lemma statusErrors_Some_iff:
  "statusErrors u = Some e \<longleftrightarrow>
   readable u \<and>
   e = pushIf (truthy (field u ''status'') \<and> \<not> isValidPrescriptionStatus (field u ''status''))
         ''Invalid prescription status. Must be one of: PENDING, SUBMITTED, APPROVED, DENIED, PRIOR_AUTH_REQUIRED, FILLED, PICKED_UP, CANCELLED''"
  unfolding statusErrors_def prescriptionStatusMessage optional_vocabulary_shape by (rule refl)

lemma pharmacyNPIErrors_Some_iff:
  "pharmacyNPIErrors E u = Some e \<longleftrightarrow>
   readable u \<and> convertible (field u ''pharmacyNPI'') \<and>
   e = pushIf (truthy (field u ''pharmacyNPI'') \<and> isValidNPI E (field u ''pharmacyNPI'') = Some False)
         ''Pharmacy NPI must be exactly 10 digits''"
  unfolding pharmacyNPIErrors_def optional_shape returns_simps by (rule refl)

lemmas prescriptionBlocks_Some_iff =
  rxUserIdErrors_Some_iff medicationNameErrors_Some_iff medicationFormErrors_Some_iff
  strengthErrors_Some_iff ndcErrors_Some_iff dosageInstructionsErrors_Some_iff
  countErrors_Some_iff refillsRemainingErrors_Some_iff prescriberNameErrors_Some_iff
  prescriberNPIErrors_Some_iff prescribedDateErrors_Some_iff statusErrors_Some_iff
  pharmacyNPIErrors_Some_iff

lemmas prescriptionErrors_defs =
  prescriptionErrors_def prescriptionEarlyErrors_def prescriptionRefillsErrors_def
  prescriptionLateErrors_def

lemma validatePrescription_Some_iff:
  "validatePrescription E u = Some r \<longleftrightarrow>
   prescriptionShape u \<and> r = finish (prescriptionErrors E u)"
  unfolding validatePrescription_def prescriptionShape_def prescriptionErrors_defs
    quantityErrors_def daysSupplyErrors_def refillsAllowedErrors_def
  by (auto simp: Option.bind_eq_Some_conv prescriptionBlocks_Some_iff)

subsection \<open>Reading a result\<close>

lemma errors_finish [simp]: "errors (finish es) = es"
  by (simp add: finish_def)

lemma isValid_finish [simp]: "isValid (finish es) \<longleftrightarrow> es = []"
  by (simp add: finish_def)

lemma primLt_undefined: "primLt E JUndefined b = False"
  by (cases b) simp_all

lemma jsGreater_undefined: "jsGreater E a JUndefined \<noteq> Some True"
  by (cases "toPrimitive a") (simp_all add: jsGreater_def primLt_undefined)

lemma insurance_amounts_only_returns:
  "validateInsurance engine0
     (JObj [(''deductibleMet'', JNum (Fin 1000000000000)), (''outOfPocketMet'', JNum PosInf)]) \<noteq> None"
  by code_simp

lemma prescription_remaining_only_returns:
  "validatePrescription engine0 (JObj [(''refillsRemaining'', JNum (Fin 1000000000000))]) \<noteq> None"
  by code_simp

subsection \<open>Field errors and cross-field errors of validateInsurance\<close>

lemma insurance_field_errors_clean:
  "''Termination date must be after effective date'' \<notin> set (insuranceFieldErrors E u)"
  "''Deductible met cannot exceed total deductible'' \<notin> set (insuranceFieldErrors E u)"
  "''Out of pocket met cannot exceed out of pocket max'' \<notin> set (insuranceFieldErrors E u)"
  by (simp_all add: insuranceFieldErrors_def)

lemma insurance_cross_errors_only:
  "m \<in> set (insuranceCrossErrors E u) \<Longrightarrow>
   m \<in> {''Termination date must be after effective date'',
         ''Deductible met cannot exceed total deductible'',
         ''Out of pocket met cannot exceed out of pocket max''}"
  by (auto simp: insuranceCrossErrors_def)

subsection \<open>Concrete runs\<close>

lemma insurance_600_500_returns:
  "validateInsurance engine0
     (JObj [(''deductibleMet'', JNum (Fin 600)), (''deductible'', JNum (Fin 500))]) \<noteq> None"
  by code_simp

lemma insurance_600_negative_errors:
  "map_option errors (validateInsurance engine0
     (JObj [(''deductibleMet'', JNum (Fin 600)), (''deductible'', JNum (Fin (- 5)))])) =
   Some [''User ID is required'', ''Insurance company name is required'',
         ''Policy number is required'', ''Plan type is required'', ''Plan name is required'',
         ''RxBIN is required'', ''Deductible must be a non-negative number (in cents)'',
         ''Effective date is required'', ''Deductible met cannot exceed total deductible'']"
  by code_simp

lemma parse_2024_06_15: "dateParse E ''2024-06-15'' = Fin 1718409600000"
  by (simp add: dateParse_def numeral10_def digitVal_def makeDay_def dayFromYear_def
      daysInMonth_def isLeap_def msPerDay_def matches_def dateRegex_def isDigit_def eval_nat_numeral)

lemma parse_2024_01_01: "dateParse E ''2024-01-01'' = Fin 1704067200000"
  by (simp add: dateParse_def numeral10_def digitVal_def makeDay_def dayFromYear_def
      daysInMonth_def isLeap_def msPerDay_def matches_def dateRegex_def isDigit_def eval_nat_numeral)

subsection \<open>Blank text fields\<close>

lemma blank_Some_True_iff: "blank v = Some True \<longleftrightarrow> trimmable v \<and> emptyText v"
  by (cases v) (auto simp: blank_def trim_def)

lemma blank_Some_False_iff: "blank v = Some False \<longleftrightarrow> trimmable v \<and> \<not> emptyText v"
  by (cases v) (auto simp: blank_def trim_def)

lemma trim_two_spaces: "trim ''  '' = []"
  by (simp add: trim_def isSpace_def)

lemma validateUser_blank_email:
  "validateUser engine0 (JObj [(''email'', JStr ''  '')]) =
     Some \<lparr> isValid = False,
            errors = [''Invalid email format'', ''First name is required'', ''Last name is required'',
                      ''Date of birth is required'', ''Phone number is required'',
                      ''Address is required''] \<rparr>"
  by code_simp

lemma validateUser_blank_name_returns:
  "validateUser engine0 (JObj [(''firstName'', JStr ''  '')]) \<noteq> None"
  by code_simp

subsection \<open>Whitespace-only strings\<close>

lemma space_cases:
  "isSpace c \<longleftrightarrow>
     c = CHR 0x09 \<or> c = CHR 0x0A \<or> c = CHR 0x0B \<or> c = CHR 0x0C \<or> c = CHR 0x0D \<or>
     c = CHR '' '' \<or> c = CHR 0xA0"
  by (simp add: isSpace_def)

lemma space_not_digit: "isSpace c \<Longrightarrow> \<not> isDigit c"
  by (auto simp: space_cases isDigit_def)

lemma space_no_match:
  assumes "isSpace c"
  shows "\<not> matches emailRegex (c # cs)" "\<not> matches phoneRegex (c # cs)"
    "\<not> matches dateRegex (c # cs)" "\<not> matches zipRegex (c # cs)"
    "\<not> matches rxBINRegex (c # cs)" "\<not> matches npiRegex (c # cs)"
proof -
  have d: "\<not> isDigit c" using assms by (rule space_not_digit)
  have p: "c \<noteq> CHR ''+''" "c \<noteq> CHR ''1''" using assms by (auto simp: space_cases)
  show "\<not> matches emailRegex (c # cs)"
    using assms by (simp add: matches_def emailRegex_def)
  show "\<not> matches phoneRegex (c # cs)"
    using d p by (simp add: matches_def phoneRegex_def eval_nat_numeral)
  show "\<not> matches dateRegex (c # cs)"
    using d by (simp add: matches_def dateRegex_def eval_nat_numeral)
  show "\<not> matches zipRegex (c # cs)"
    using d by (simp add: matches_def zipRegex_def eval_nat_numeral)
  show "\<not> matches rxBINRegex (c # cs)"
    using d by (simp add: matches_def rxBINRegex_def eval_nat_numeral)
  show "\<not> matches npiRegex (c # cs)"
    using d by (simp add: matches_def npiRegex_def eval_nat_numeral)
qed

lemma whitespaceOnly_cases:
  "whitespaceOnly v \<longleftrightarrow> (\<exists>c cs. v = JStr (c # cs) \<and> isSpace c \<and> list_all isSpace cs)"
proof (cases v)
  case (JStr s)
  then show ?thesis by (cases s) auto
qed simp_all

lemma whitespaceOnly_trim: "whitespaceOnly (JStr s) \<Longrightarrow> trim s = []"
proof -
  assume "whitespaceOnly (JStr s)"
  then have "dropWhile isSpace s = []"
    by (simp add: dropWhile_eq_Nil_conv list_all_iff)
  then show ?thesis by (simp only: trim_def rev.simps dropWhile.simps)
qed

lemma whitespaceOnly_truthy: "whitespaceOnly v \<Longrightarrow> truthy v"
  by (auto simp: whitespaceOnly_cases)

lemma whitespaceOnly_field: "whitespaceOnly v \<Longrightarrow> field v k = JUndefined"
  by (auto simp: whitespaceOnly_cases field_def)

lemma whitespaceOnly_format:
  assumes "whitespaceOnly v"
  shows "isValidEmail E v = Some False" "isValidPhoneNumber E v = Some False"
    "isValidDate E v = Some False" "isValidZipCode E v = Some False"
    "isValidRxBIN E v = Some False" "isValidNPI E v = Some False"
  using assms
  by (auto simp: whitespaceOnly_cases isValidEmail_def isValidPhoneNumber_def isValidDate_def
      isValidZipCode_def isValidRxBIN_def isValidNPI_def regexTest_def space_no_match)

lemma space_upperUnits: "isSpace c \<Longrightarrow> upperUnits c = [of_char c]"
  by (auto simp: space_cases upperUnits_def)

lemma space_not_state: "isSpace c \<Longrightarrow> toUpperCase (c # cs) \<notin> set (map units validStates)"
  by (auto simp: space_cases toUpperCase_def upperUnits_def validStates_def units_def)

lemma whitespaceOnly_state: "whitespaceOnly v \<Longrightarrow> isValidStateCode v = Some False"
proof -
  assume "whitespaceOnly v"
  then obtain c cs where v: "v = JStr (c # cs)" and c: "isSpace c"
    by (auto simp: whitespaceOnly_cases)
  show ?thesis
    unfolding v using space_not_state [OF c, of cs] by (simp only: isValidStateCode.simps)
qed

lemma whitespaceOnly_vocabulary:
  assumes "whitespaceOnly v"
  shows "\<not> isValidPlanType v" "\<not> isValidMedicationForm v"
  using assms
  by (auto simp: whitespaceOnly_cases space_cases isValidPlanType_def isValidMedicationForm_def
      objectValues_def InsurancePlanType_def MedicationForm_def)

subsection \<open>The three parts of the errors of validatePrescription\<close>

lemma set_pushIf_subset [simp]: "set (pushIf c x) \<subseteq> A \<longleftrightarrow> (c \<longrightarrow> x \<in> A)"
  by (cases c) simp_all

lemma prescription_early_messages:
  "set (prescriptionEarlyErrors E u) \<subseteq>
     {''User ID is required'', ''Medication name is required'', ''Medication form is required'',
      ''Invalid medication form. Must be one of: TABLET, CAPSULE, LIQUID, INJECTION, CREAM, INHALER, PATCH, OTHER'',
      strengthRequired, ''NDC must be in format: 12345-1234-12'',
      ''Dosage instructions are required'', ''Quantity is required'',
      ''Quantity must be a positive number'', ''Days supply is required'',
      ''Days supply must be a positive number'', ''Refills allowed is required'',
      ''Refills allowed must be a non-negative number''}"
  by (simp add: prescriptionEarlyErrors_def)

lemma prescription_refills_messages:
  "set (prescriptionRefillsErrors E u) \<subseteq>
     {''Refills remaining must be a non-negative number'',
      ''Refills remaining cannot exceed refills allowed''}"
  by (simp add: prescriptionRefillsErrors_def)

lemma prescription_late_messages:
  "set (prescriptionLateErrors E u) \<subseteq>
     {''Prescriber name is required'', ''Prescriber NPI is required'',
      ''Prescriber NPI must be exactly 10 digits'', ''Prescribed date is required'',
      ''Prescribed date must be in YYYY-MM-DD format'',
      ''Invalid prescription status. Must be one of: PENDING, SUBMITTED, APPROVED, DENIED, PRIOR_AUTH_REQUIRED, FILLED, PICKED_UP, CANCELLED'',
      ''Pharmacy NPI must be exactly 10 digits''}"
  by (simp add: prescriptionLateErrors_def)

lemma refills_error_not_early_or_late:
  "''Refills remaining cannot exceed refills allowed'' \<notin> set (prescriptionEarlyErrors E u)"
  "''Refills remaining cannot exceed refills allowed'' \<notin> set (prescriptionLateErrors E u)"
  by (simp_all add: prescriptionEarlyErrors_def prescriptionLateErrors_def strengthRequired_def)

subsection \<open>Comparison with null\<close>

lemma jsGreater_number_null: "jsGreater E (JNum (Fin q)) JNull = Some (0 < q)"
  by (simp add: jsGreater_def)

lemma prescription_null_ceiling_errors:
  \<open>map_option errors (validatePrescription engine0
      (JObj [(''refillsAllowed'', JNull), (''refillsRemaining'', JNum (Fin 5))])) =
    Some [''User ID is required'', ''Medication name is required'', ''Medication form is required'',
          ''Medication strength is required (e.g., "500mg", "10mg/ml")'',
          ''Dosage instructions are required'', ''Quantity is required'', ''Days supply is required'',
          ''Refills allowed is required'', ''Refills remaining cannot exceed refills allowed'',
          ''Prescriber name is required'', ''Prescriber NPI is required'',
          ''Prescribed date is required'']\<close>
  by code_simp

lemma jsGreater_null_zero: "jsGreater E a JNull = jsGreater E a (JNum (Fin 0))"
proof (cases "toPrimitive a")
  case None
  then show ?thesis by (simp add: jsGreater_def)
next
  case (Some pa)
  then show ?thesis by (cases pa) (simp_all add: jsGreater_def)
qed

lemma insurance_null_ceilings_errors:
  "map_option errors (validateInsurance engine0
      (JObj [(''deductible'', JNull), (''deductibleMet'', JNum (Fin 600)),
             (''outOfPocketMax'', JNull), (''outOfPocketMet'', JNum (Fin 1))])) =
    Some [''User ID is required'', ''Insurance company name is required'',
          ''Policy number is required'', ''Plan type is required'', ''Plan name is required'',
          ''RxBIN is required'', ''Deductible must be a non-negative number (in cents)'',
          ''Out of pocket max must be a non-negative number (in cents)'',
          ''Effective date is required'', ''Deductible met cannot exceed total deductible'',
          ''Out of pocket met cannot exceed out of pocket max'']"
  by code_simp

subsection \<open>The order of two errors\<close>

lemma precedes_append:
  "precedes (a @ b) x y \<longleftrightarrow> precedes a x y \<and> precedes b x y \<and> (y \<in> set a \<longrightarrow> x \<notin> set b)"
  by (induction a) auto

lemma precedes_absent_left: "x \<notin> set xs \<Longrightarrow> precedes xs x y"
  by (induction xs) auto

lemma precedes_absent_right: "y \<notin> set xs \<Longrightarrow> precedes xs x y"
  by (induction xs) auto

lemma precedes_three:
  assumes "x \<notin> set c" and "y \<notin> set a" and "y \<notin> set b"
  shows "precedes (a @ b @ c) x y"
  using assms by (simp add: precedes_append precedes_absent_left precedes_absent_right)

lemma precedes_three_mid:
  assumes "x \<notin> set b" and "x \<notin> set c" and "y \<notin> set a"
  shows "precedes (a @ b @ c) x y"
  using assms by (simp add: precedes_append precedes_absent_left precedes_absent_right)

lemma late_messages_not_early:
  "''Prescriber name is required'' \<notin> set (prescriptionEarlyErrors E u)"
  "''Prescriber NPI is required'' \<notin> set (prescriptionEarlyErrors E u)"
  "''Prescriber NPI must be exactly 10 digits'' \<notin> set (prescriptionEarlyErrors E u)"
  "''Prescribed date is required'' \<notin> set (prescriptionEarlyErrors E u)"
  "''Prescribed date must be in YYYY-MM-DD format'' \<notin> set (prescriptionEarlyErrors E u)"
  "''Invalid prescription status. Must be one of: PENDING, SUBMITTED, APPROVED, DENIED, PRIOR_AUTH_REQUIRED, FILLED, PICKED_UP, CANCELLED'' \<notin> set (prescriptionEarlyErrors E u)"
  "''Pharmacy NPI must be exactly 10 digits'' \<notin> set (prescriptionEarlyErrors E u)"
  by (simp_all add: prescriptionEarlyErrors_def strengthRequired_def)

lemma late_messages_not_refills:
  "''Prescriber name is required'' \<notin> set (prescriptionRefillsErrors E u)"
  "''Prescriber NPI is required'' \<notin> set (prescriptionRefillsErrors E u)"
  "''Prescriber NPI must be exactly 10 digits'' \<notin> set (prescriptionRefillsErrors E u)"
  "''Prescribed date is required'' \<notin> set (prescriptionRefillsErrors E u)"
  "''Prescribed date must be in YYYY-MM-DD format'' \<notin> set (prescriptionRefillsErrors E u)"
  "''Invalid prescription status. Must be one of: PENDING, SUBMITTED, APPROVED, DENIED, PRIOR_AUTH_REQUIRED, FILLED, PICKED_UP, CANCELLED'' \<notin> set (prescriptionRefillsErrors E u)"
  "''Pharmacy NPI must be exactly 10 digits'' \<notin> set (prescriptionRefillsErrors E u)"
  by (simp_all add: prescriptionRefillsErrors_def)

lemma early_messages_not_refills:
  "''User ID is required'' \<notin> set (prescriptionRefillsErrors E u)"
  "''Medication name is required'' \<notin> set (prescriptionRefillsErrors E u)"
  "''Medication form is required'' \<notin> set (prescriptionRefillsErrors E u)"
  "''Invalid medication form. Must be one of: TABLET, CAPSULE, LIQUID, INJECTION, CREAM, INHALER, PATCH, OTHER'' \<notin> set (prescriptionRefillsErrors E u)"
  "strengthRequired \<notin> set (prescriptionRefillsErrors E u)"
  "''NDC must be in format: 12345-1234-12'' \<notin> set (prescriptionRefillsErrors E u)"
  "''Dosage instructions are required'' \<notin> set (prescriptionRefillsErrors E u)"
  "''Quantity is required'' \<notin> set (prescriptionRefillsErrors E u)"
  "''Quantity must be a positive number'' \<notin> set (prescriptionRefillsErrors E u)"
  "''Days supply is required'' \<notin> set (prescriptionRefillsErrors E u)"
  "''Days supply must be a positive number'' \<notin> set (prescriptionRefillsErrors E u)"
  "''Refills allowed is required'' \<notin> set (prescriptionRefillsErrors E u)"
  "''Refills allowed must be a non-negative number'' \<notin> set (prescriptionRefillsErrors E u)"
  by (simp_all add: prescriptionRefillsErrors_def strengthRequired_def)

lemma early_messages_not_late:
  "''User ID is required'' \<notin> set (prescriptionLateErrors E u)"
  "''Medication name is required'' \<notin> set (prescriptionLateErrors E u)"
  "''Medication form is required'' \<notin> set (prescriptionLateErrors E u)"
  "''Invalid medication form. Must be one of: TABLET, CAPSULE, LIQUID, INJECTION, CREAM, INHALER, PATCH, OTHER'' \<notin> set (prescriptionLateErrors E u)"
  "strengthRequired \<notin> set (prescriptionLateErrors E u)"
  "''NDC must be in format: 12345-1234-12'' \<notin> set (prescriptionLateErrors E u)"
  "''Dosage instructions are required'' \<notin> set (prescriptionLateErrors E u)"
  "''Quantity is required'' \<notin> set (prescriptionLateErrors E u)"
  "''Quantity must be a positive number'' \<notin> set (prescriptionLateErrors E u)"
  "''Days supply is required'' \<notin> set (prescriptionLateErrors E u)"
  "''Days supply must be a positive number'' \<notin> set (prescriptionLateErrors E u)"
  "''Refills allowed is required'' \<notin> set (prescriptionLateErrors E u)"
  "''Refills allowed must be a non-negative number'' \<notin> set (prescriptionLateErrors E u)"
  by (simp_all add: prescriptionLateErrors_def strengthRequired_def)

lemma refills_error_before_late:
  assumes "m \<in> {''Prescriber name is required'', ''Prescriber NPI is required'',
      ''Prescriber NPI must be exactly 10 digits'', ''Prescribed date is required'',
      ''Prescribed date must be in YYYY-MM-DD format'',
      ''Invalid prescription status. Must be one of: PENDING, SUBMITTED, APPROVED, DENIED, PRIOR_AUTH_REQUIRED, FILLED, PICKED_UP, CANCELLED'',
      ''Pharmacy NPI must be exactly 10 digits''}"
  shows "precedes (prescriptionErrors E u) ''Refills remaining cannot exceed refills allowed'' m"
proof -
  have "m \<notin> set (prescriptionEarlyErrors E u) \<and> m \<notin> set (prescriptionRefillsErrors E u)"
    using assms late_messages_not_early [of E u] late_messages_not_refills [of E u]
    by (elim insertE emptyE) (simp_all only: simp_thms)
  then show ?thesis
    unfolding prescriptionErrors_def
    using refills_error_not_early_or_late(2) [of E u] by (intro precedes_three) simp_all
qed

lemma early_before_refills_error:
  assumes "m \<in> {''User ID is required'', ''Medication name is required'', ''Medication form is required'',
      ''Invalid medication form. Must be one of: TABLET, CAPSULE, LIQUID, INJECTION, CREAM, INHALER, PATCH, OTHER'',
      strengthRequired, ''NDC must be in format: 12345-1234-12'',
      ''Dosage instructions are required'', ''Quantity is required'',
      ''Quantity must be a positive number'', ''Days supply is required'',
      ''Days supply must be a positive number'', ''Refills allowed is required'',
      ''Refills allowed must be a non-negative number''}"
  shows "precedes (prescriptionErrors E u) m ''Refills remaining cannot exceed refills allowed''"
proof -
  have "m \<notin> set (prescriptionRefillsErrors E u) \<and> m \<notin> set (prescriptionLateErrors E u)"
    using assms early_messages_not_refills [of E u] early_messages_not_late [of E u]
    by (elim insertE emptyE) (simp_all only: simp_thms)
  then show ?thesis
    unfolding prescriptionErrors_def
    using refills_error_not_early_or_late(1) [of E u] by (intro precedes_three_mid) simp_all
qed

lemma prescription_2_5_errors:
  \<open>map_option errors (validatePrescription engine0
      (JObj [(''refillsAllowed'', JNum (Fin 2)), (''refillsRemaining'', JNum (Fin 5))])) =
    Some [''User ID is required'', ''Medication name is required'', ''Medication form is required'',
          ''Medication strength is required (e.g., "500mg", "10mg/ml")'',
          ''Dosage instructions are required'', ''Quantity is required'', ''Days supply is required'',
          ''Refills remaining cannot exceed refills allowed'',
          ''Prescriber name is required'', ''Prescriber NPI is required'',
          ''Prescribed date is required'']\<close>
  by code_simp

subsection \<open>Whitespace-only values in the validators\<close>

lemma insurance_blank_userId_valid:
  "validateInsurance engine0
     (JObj [(''userId'', JStr ''  ''), (''insuranceCompany'', JStr ''Acme''),
            (''policyNumber'', JStr ''P1''), (''planType'', JStr ''PPO''),
            (''planName'', JStr ''Gold''), (''rxBIN'', JStr ''123456''),
            (''effectiveDate'', JStr ''2024-01-01'')]) =
   Some \<lparr> isValid = True, errors = [] \<rparr>"
  by code_simp

lemma validateUser_blank_address:
  "map_option errors (validateUser engine0 (JObj [(''address'', JStr ''  '')])) =
     Some [''Email is required'', ''First name is required'', ''Last name is required'',
           ''Date of birth is required'', ''Phone number is required'',
           ''Street address is required'', ''City is required'', ''State is required'',
           ''ZIP code is required'']"
  by code_simp

section \<open>The claims\<close>

text \<open>
  C5: \<^verbatim>\<open>validateUser({})\<close> returns \<^verbatim>\<open>isValid = false\<close> and exactly six errors, in the order
  email, first name, last name, date of birth, phone number, address. No engine primitive
  is reached, so the result is the same on every engine.
\<close>

theorem validateUser_empty_object:
  "validateUser E (JObj []) =
     Some \<lparr> isValid = False,
            errors = [''Email is required'', ''First name is required'', ''Last name is required'',
                      ''Date of birth is required'', ''Phone number is required'',
                      ''Address is required''] \<rparr>"
  by (simp add: userBlocks)

text \<open>
  C6: \<open>isValidDate\<close> is meant to accept exactly the strings of the form \<^verbatim>\<open>YYYY-MM-DD\<close> that
  are real calendar dates, and so to reject \<^verbatim>\<open>"2023-02-31"\<close>, as the comment in the source
  says. On V8 the string passes: the pattern matches, the \<^verbatim>\<open>Date\<close> constructor reads day 31
  of February as the third of March, and the time value is a number.
\<close>

theorem isValidDate_accepts_feb31: "isValidDate E (JStr ''2023-02-31'') = Some True"
  by (simp add: isValidDate_def regexTest_def matches_feb31 dateParse_def numeral10_def digitVal_def)

text \<open>
  C7: each vocabulary test holds exactly for the declared members of its set, as strings:
  no other string passes, in particular no variant of a member in another letter case and
  not the empty string, and no value that is not a string passes.
\<close>

theorem vocabulary_membership:
  "(isValidPlanType v \<longleftrightarrow> v \<in> JStr ` {''HMO'', ''PPO'', ''EPO'', ''POS'', ''HDHP''}) \<and>
   (isValidMedicationForm v \<longleftrightarrow>
      v \<in> JStr ` {''TABLET'', ''CAPSULE'', ''LIQUID'', ''INJECTION'', ''CREAM'', ''INHALER'', ''PATCH'', ''OTHER''}) \<and>
   (isValidPrescriptionStatus v \<longleftrightarrow>
      v \<in> JStr ` {''PENDING'', ''SUBMITTED'', ''APPROVED'', ''DENIED'', ''PRIOR_AUTH_REQUIRED'',
                    ''FILLED'', ''PICKED_UP'', ''CANCELLED''}) \<and>
   \<not> isValidPlanType (JStr ''hmo'') \<and> \<not> isValidPlanType (JStr ''Hmo'') \<and> \<not> isValidPlanType (JStr []) \<and>
   \<not> isValidMedicationForm (JStr ''tablet'') \<and> \<not> isValidMedicationForm (JStr ''Tablet'') \<and>
   \<not> isValidMedicationForm (JStr []) \<and>
   \<not> isValidPrescriptionStatus (JStr ''pending'') \<and> \<not> isValidPrescriptionStatus (JStr ''Pending'') \<and>
   \<not> isValidPrescriptionStatus (JStr [])"
  by (cases v)
    (auto simp: isValidPlanType_def isValidMedicationForm_def isValidPrescriptionStatus_def
      objectValues_def InsurancePlanType_def MedicationForm_def PrescriptionStatus_def)

text \<open>
  C8, as stated: every primitive format checker returns for every input, and
  \<open>isValidStateCode\<close> returns false for every input that is not a string. It does not:
  the number 5 has no \<^verbatim>\<open>toUpperCase\<close> method, and the call throws a \<^verbatim>\<open>TypeError\<close>; the
  optional chain \<^verbatim>\<open>state?.toUpperCase()\<close> guards \<^verbatim>\<open>undefined\<close> and \<^verbatim>\<open>null\<close> only.
\<close>

theorem isValidStateCode_number_throws: "isValidStateCode (JNum (Fin 5)) = None"
  by simp

text \<open>
  C8, amended, for the inputs of this model: \<^verbatim>\<open>undefined\<close>, \<^verbatim>\<open>null\<close>, booleans, numbers,
  strings and plain data objects (own properties holding such values; no arrays,
  functions, symbols, BigInts or wrapper objects, about which nothing is said). On these
  inputs each checker built on a pattern returns a boolean, except on a plain data object
  with an own \<^verbatim>\<open>toString\<close> property: that property holds data, is not callable, and the
  conversion to a string throws. \<open>isValidStateCode\<close> returns on \<^verbatim>\<open>undefined\<close>, \<^verbatim>\<open>null\<close> and
  strings and throws on numbers, booleans and plain data objects: it gives false for
  \<^verbatim>\<open>undefined\<close> and \<^verbatim>\<open>null\<close>, and true for a string that is one of the 56 abbreviations
  in any letter case.
\<close>

theorem format_checkers_total:
  "(isValidEmail E v \<noteq> None \<longleftrightarrow> convertible v) \<and>
   (isValidPhoneNumber E v \<noteq> None \<longleftrightarrow> convertible v) \<and>
   (isValidDate E v \<noteq> None \<longleftrightarrow> convertible v) \<and>
   (isValidZipCode E v \<noteq> None \<longleftrightarrow> convertible v) \<and>
   (isValidRxBIN E v \<noteq> None \<longleftrightarrow> convertible v) \<and>
   (isValidNDC E v \<noteq> None \<longleftrightarrow> convertible v) \<and>
   (isValidNPI E v \<noteq> None \<longleftrightarrow> convertible v) \<and>
   (isValidStateCode v \<noteq> None \<longleftrightarrow> v = JUndefined \<or> v = JNull \<or> (\<exists>s. v = JStr s)) \<and>
   isValidStateCode JUndefined = Some False \<and>
   isValidStateCode JNull = Some False \<and>
   length validStates = 56 \<and>
   (\<forall>s. map asciiUpper s \<in> set validStates \<longrightarrow> isValidStateCode (JStr s) = Some True)"
proof -
  have state: "isValidStateCode v \<noteq> None \<longleftrightarrow> v = JUndefined \<or> v = JNull \<or> (\<exists>s. v = JStr s)"
    by (cases v) simp_all
  have n: "length validStates = 56"
    by (simp add: validStates_def)
  show ?thesis
    using state n isValidStateCode_any_case
    by (simp add: isValidEmail_def isValidPhoneNumber_def isValidZipCode_def isValidRxBIN_def
        isValidNDC_def isValidNPI_def regexTest_None_iff isValidDate_None_iff)
qed

theorem format_checkers_total_witness:
  "map asciiUpper ''il'' \<in> set validStates \<and> isValidStateCode (JStr ''il'') = Some True"
proof -
  have h: "map asciiUpper ''il'' \<in> set validStates" by code_simp
  from format_checkers_total [of engine0 JNull] have
    "\<forall>s. map asciiUpper s \<in> set validStates \<longrightarrow> isValidStateCode (JStr s) = Some True"
    by blast
  with h show ?thesis by blast
qed

text \<open>
  C10, as stated: a ceiling check is made only when the ceiling is present, so an amount
  with no declared ceiling always passes. It does not when the ceiling is \<^verbatim>\<open>null\<close>: the
  code reports \<^verbatim>\<open>refillsAllowed: null\<close> as a missing field and then still compares
  \<^verbatim>\<open>5 > null\<close>, which is \<^verbatim>\<open>5 > 0\<close>; likewise for a \<^verbatim>\<open>null\<close> deductible and out-of-pocket
  maximum.
\<close>

theorem null_ceiling_still_compared:
  \<open>map_option errors (validatePrescription engine0
      (JObj [(''refillsAllowed'', JNull), (''refillsRemaining'', JNum (Fin 5))])) =
    Some [''User ID is required'', ''Medication name is required'', ''Medication form is required'',
          ''Medication strength is required (e.g., "500mg", "10mg/ml")'',
          ''Dosage instructions are required'', ''Quantity is required'', ''Days supply is required'',
          ''Refills allowed is required'', ''Refills remaining cannot exceed refills allowed'',
          ''Prescriber name is required'', ''Prescriber NPI is required'',
          ''Prescribed date is required''] \<and>
   map_option errors (validateInsurance engine0
      (JObj [(''deductible'', JNull), (''deductibleMet'', JNum (Fin 600)),
             (''outOfPocketMax'', JNull), (''outOfPocketMet'', JNum (Fin 1))])) =
    Some [''User ID is required'', ''Insurance company name is required'',
          ''Policy number is required'', ''Plan type is required'', ''Plan name is required'',
          ''RxBIN is required'', ''Deductible must be a non-negative number (in cents)'',
          ''Out of pocket max must be a non-negative number (in cents)'',
          ''Effective date is required'', ''Deductible met cannot exceed total deductible'',
          ''Out of pocket met cannot exceed out of pocket max'']\<close>
  by (rule conjI [OF prescription_null_ceiling_errors insurance_null_ceilings_errors])

text \<open>
  C10, amended: the claim holds for a ceiling that is \<^verbatim>\<open>undefined\<close>, not for one that is
  \<^verbatim>\<open>null\<close>. When
  \<^verbatim>\<open>deductible\<close> is \<^verbatim>\<open>undefined\<close>, no result of \<open>validateInsurance\<close> holds the error about the
  deductible met, whatever \<^verbatim>\<open>deductibleMet\<close> is; likewise for \<^verbatim>\<open>outOfPocketMax\<close>; and when
  \<^verbatim>\<open>refillsAllowed\<close> is \<^verbatim>\<open>undefined\<close>, no result of \<open>validatePrescription\<close> holds the error about
  the refills remaining. A ceiling that is \<^verbatim>\<open>null\<close> is compared as the number 0: the error
  is reported exactly when the amount exceeds 0 (for the refills, when in addition
  \<^verbatim>\<open>refillsRemaining\<close> is not \<^verbatim>\<open>undefined\<close>), so every number above 0 gets it; and the result
  of \<open>validatePrescription\<close> then holds the presence error of \<^verbatim>\<open>refillsAllowed\<close> as well.
\<close>

theorem ceiling_undefined_or_null:
  "(validateInsurance E u = Some r \<longrightarrow>
      (field u ''deductible'' = JUndefined \<longrightarrow>
         ''Deductible met cannot exceed total deductible'' \<notin> set (errors r)) \<and>
      (field u ''outOfPocketMax'' = JUndefined \<longrightarrow>
         ''Out of pocket met cannot exceed out of pocket max'' \<notin> set (errors r)) \<and>
      (field u ''deductible'' = JNull \<longrightarrow>
         (''Deductible met cannot exceed total deductible'' \<in> set (errors r) \<longleftrightarrow>
            jsGreater E (field u ''deductibleMet'') (JNum (Fin 0)) = Some True)) \<and>
      (field u ''outOfPocketMax'' = JNull \<longrightarrow>
         (''Out of pocket met cannot exceed out of pocket max'' \<in> set (errors r) \<longleftrightarrow>
            jsGreater E (field u ''outOfPocketMet'') (JNum (Fin 0)) = Some True)) \<and>
      (field u ''deductible'' = JNull \<and> field u ''deductibleMet'' = JNum (Fin q) \<and> 0 < q \<longrightarrow>
         ''Deductible met cannot exceed total deductible'' \<in> set (errors r)) \<and>
      (field u ''outOfPocketMax'' = JNull \<and> field u ''outOfPocketMet'' = JNum (Fin q) \<and> 0 < q \<longrightarrow>
         ''Out of pocket met cannot exceed out of pocket max'' \<in> set (errors r))) \<and>
   (validatePrescription E p = Some r' \<longrightarrow>
      (field p ''refillsAllowed'' = JUndefined \<longrightarrow>
         ''Refills remaining cannot exceed refills allowed'' \<notin> set (errors r')) \<and>
      (field p ''refillsAllowed'' = JNull \<longrightarrow>
         ''Refills allowed is required'' \<in> set (errors r') \<and>
         (''Refills remaining cannot exceed refills allowed'' \<in> set (errors r') \<longleftrightarrow>
            field p ''refillsRemaining'' \<noteq> JUndefined \<and>
            jsGreater E (field p ''refillsRemaining'') (JNum (Fin 0)) = Some True)) \<and>
      (field p ''refillsAllowed'' = JNull \<and> field p ''refillsRemaining'' = JNum (Fin q') \<and> 0 < q' \<longrightarrow>
         ''Refills remaining cannot exceed refills allowed'' \<in> set (errors r')))"
proof (intro conjI impI)
  assume r: "validateInsurance E u = Some r"
  then have e: "errors r = insuranceErrors E u"
    by (simp add: validateInsurance_Some_iff)
  {
    assume "field u ''deductible'' = JUndefined"
    then show "''Deductible met cannot exceed total deductible'' \<notin> set (errors r)"
      by (simp add: e insuranceErrors_defs jsGreater_undefined)
  }
  {
    assume "field u ''outOfPocketMax'' = JUndefined"
    then show "''Out of pocket met cannot exceed out of pocket max'' \<notin> set (errors r)"
      by (simp add: e insuranceErrors_defs jsGreater_undefined)
  }
  {
    assume "field u ''deductible'' = JNull"
    then show "''Deductible met cannot exceed total deductible'' \<in> set (errors r) \<longleftrightarrow>
        jsGreater E (field u ''deductibleMet'') (JNum (Fin 0)) = Some True"
      by (simp add: e insuranceErrors_defs jsGreater_null_zero)
  }
  {
    assume "field u ''outOfPocketMax'' = JNull"
    then show "''Out of pocket met cannot exceed out of pocket max'' \<in> set (errors r) \<longleftrightarrow>
        jsGreater E (field u ''outOfPocketMet'') (JNum (Fin 0)) = Some True"
      by (simp add: e insuranceErrors_defs jsGreater_null_zero)
  }
  {
    assume "field u ''deductible'' = JNull \<and> field u ''deductibleMet'' = JNum (Fin q) \<and> 0 < q"
    then show "''Deductible met cannot exceed total deductible'' \<in> set (errors r)"
      by (simp add: e insuranceErrors_defs jsGreater_number_null)
  }
  {
    assume "field u ''outOfPocketMax'' = JNull \<and> field u ''outOfPocketMet'' = JNum (Fin q) \<and> 0 < q"
    then show "''Out of pocket met cannot exceed out of pocket max'' \<in> set (errors r)"
      by (simp add: e insuranceErrors_defs jsGreater_number_null)
  }
next
  assume r: "validatePrescription E p = Some r'"
  then have e: "errors r' = prescriptionErrors E p"
    by (simp add: validatePrescription_Some_iff)
  {
    assume "field p ''refillsAllowed'' = JUndefined"
    then show "''Refills remaining cannot exceed refills allowed'' \<notin> set (errors r')"
      by (simp add: e prescriptionErrors_defs strengthRequired_def jsGreater_undefined)
  }
  {
    assume "field p ''refillsAllowed'' = JNull"
    then show "''Refills allowed is required'' \<in> set (errors r')"
      by (simp add: e prescriptionErrors_defs strengthRequired_def)
  }
  {
    assume "field p ''refillsAllowed'' = JNull"
    then show "''Refills remaining cannot exceed refills allowed'' \<in> set (errors r') \<longleftrightarrow>
        field p ''refillsRemaining'' \<noteq> JUndefined \<and>
        jsGreater E (field p ''refillsRemaining'') (JNum (Fin 0)) = Some True"
      by (simp add: e prescriptionErrors_defs strengthRequired_def jsGreater_null_zero)
  }
  {
    assume "field p ''refillsAllowed'' = JNull \<and> field p ''refillsRemaining'' = JNum (Fin q') \<and> 0 < q'"
    then show "''Refills remaining cannot exceed refills allowed'' \<in> set (errors r')"
      by (simp add: e prescriptionErrors_defs strengthRequired_def jsGreater_number_null)
  }
qed

theorem ceiling_undefined_or_null_witness:
  "validateInsurance engine0
     (JObj [(''deductibleMet'', JNum (Fin 1000000000000)), (''outOfPocketMet'', JNum PosInf)]) \<noteq> None \<and>
   ''Deductible met cannot exceed total deductible'' \<notin>
     set (errors (the (validateInsurance engine0
       (JObj [(''deductibleMet'', JNum (Fin 1000000000000)), (''outOfPocketMet'', JNum PosInf)])))) \<and>
   ''Out of pocket met cannot exceed out of pocket max'' \<notin>
     set (errors (the (validateInsurance engine0
       (JObj [(''deductibleMet'', JNum (Fin 1000000000000)), (''outOfPocketMet'', JNum PosInf)])))) \<and>
   validatePrescription engine0 (JObj [(''refillsRemaining'', JNum (Fin 1000000000000))]) \<noteq> None \<and>
   ''Refills remaining cannot exceed refills allowed'' \<notin>
     set (errors (the (validatePrescription engine0
       (JObj [(''refillsRemaining'', JNum (Fin 1000000000000))])))) \<and>
   validateInsurance engine0
     (JObj [(''deductible'', JNull), (''deductibleMet'', JNum (Fin 600)),
            (''outOfPocketMax'', JNull), (''outOfPocketMet'', JNum (Fin 1))]) \<noteq> None \<and>
   ''Deductible met cannot exceed total deductible'' \<in>
     set (errors (the (validateInsurance engine0
       (JObj [(''deductible'', JNull), (''deductibleMet'', JNum (Fin 600)),
              (''outOfPocketMax'', JNull), (''outOfPocketMet'', JNum (Fin 1))])))) \<and>
   ''Out of pocket met cannot exceed out of pocket max'' \<in>
     set (errors (the (validateInsurance engine0
       (JObj [(''deductible'', JNull), (''deductibleMet'', JNum (Fin 600)),
              (''outOfPocketMax'', JNull), (''outOfPocketMet'', JNum (Fin 1))])))) \<and>
   validatePrescription engine0
     (JObj [(''refillsAllowed'', JNull), (''refillsRemaining'', JNum (Fin 5))]) \<noteq> None \<and>
   ''Refills allowed is required'' \<in>
     set (errors (the (validatePrescription engine0
       (JObj [(''refillsAllowed'', JNull), (''refillsRemaining'', JNum (Fin 5))])))) \<and>
   ''Refills remaining cannot exceed refills allowed'' \<in>
     set (errors (the (validatePrescription engine0
       (JObj [(''refillsAllowed'', JNull), (''refillsRemaining'', JNum (Fin 5))]))))"
proof -
  let ?u = "JObj [(''deductibleMet'', JNum (Fin 1000000000000)), (''outOfPocketMet'', JNum PosInf)]"
  let ?p = "JObj [(''refillsRemaining'', JNum (Fin 1000000000000))]"
  let ?v = "JObj [(''deductible'', JNull), (''deductibleMet'', JNum (Fin 600)),
                  (''outOfPocketMax'', JNull), (''outOfPocketMet'', JNum (Fin 1))]"
  let ?q = "JObj [(''refillsAllowed'', JNull), (''refillsRemaining'', JNum (Fin 5))]"
  obtain r where r: "validateInsurance engine0 ?u = Some r"
    using insurance_amounts_only_returns by auto
  obtain r' where r': "validatePrescription engine0 ?p = Some r'"
    using prescription_remaining_only_returns by auto
  obtain s where s: "validateInsurance engine0 ?v = Some s"
    using insurance_null_ceilings_errors by auto
  obtain s' where s': "validatePrescription engine0 ?q = Some s'"
    using prescription_null_ceiling_errors by auto
  have f: "field ?u ''deductible'' = JUndefined" "field ?u ''outOfPocketMax'' = JUndefined"
    "field ?p ''refillsAllowed'' = JUndefined"
    by (simp_all add: field_def)
  have g: "field ?v ''deductible'' = JNull" "field ?v ''deductibleMet'' = JNum (Fin 600)"
    "field ?v ''outOfPocketMax'' = JNull" "field ?v ''outOfPocketMet'' = JNum (Fin 1)"
    "field ?q ''refillsAllowed'' = JNull" "field ?q ''refillsRemaining'' = JNum (Fin 5)"
    by (simp_all add: field_def)
  have a: "''Deductible met cannot exceed total deductible'' \<notin> set (errors r) \<and>
           ''Out of pocket met cannot exceed out of pocket max'' \<notin> set (errors r) \<and>
           ''Refills remaining cannot exceed refills allowed'' \<notin> set (errors r')"
    using ceiling_undefined_or_null [of engine0 ?u r _ ?p r'] r r' f by blast
  have pos: "(0::rat) < 600" "(0::rat) < 1" "(0::rat) < 5"
    by simp_all
  have b: "''Deductible met cannot exceed total deductible'' \<in> set (errors s)"
    using ceiling_undefined_or_null [of engine0 ?v s 600 ?q s' 5, THEN conjunct1] s g pos by blast
  have c: "''Out of pocket met cannot exceed out of pocket max'' \<in> set (errors s)"
    using ceiling_undefined_or_null [of engine0 ?v s 1 ?q s' 5, THEN conjunct1] s g pos by blast
  have d: "''Refills allowed is required'' \<in> set (errors s') \<and>
           ''Refills remaining cannot exceed refills allowed'' \<in> set (errors s')"
    using ceiling_undefined_or_null [of engine0 ?v s 1 ?q s' 5, THEN conjunct2] s' g pos by blast
  show ?thesis
    using r r' s s' a b c d by simp
qed

text \<open>
  C2, as stated: each validator returns for every input record, whatever the types of its
  fields. It does not: on a record whose \<^verbatim>\<open>firstName\<close> is the number 5 the test
  \<^verbatim>\<open>!user.firstName\<close> fails, \<^verbatim>\<open>user.firstName.trim\<close> is \<^verbatim>\<open>undefined\<close>, and calling it throws a
  \<^verbatim>\<open>TypeError\<close>.
\<close>

theorem validateUser_number_name_throws:
  "validateUser engine0 (JObj [(''firstName'', JNum (Fin 5))]) = None"
  by (simp add: userBlocks)

text \<open>
  C2, amended, for the inputs of this model: \<^verbatim>\<open>undefined\<close>, \<^verbatim>\<open>null\<close>, booleans, numbers,
  strings and plain data objects (own properties holding such values; no arrays,
  functions, symbols, BigInts or wrapper objects, about which nothing is said). On these
  inputs each validator returns exactly when the input is as \<open>userShape\<close>,
  \<open>insuranceShape\<close> and \<open>prescriptionShape\<close> say: the record is not \<^verbatim>\<open>undefined\<close> or \<^verbatim>\<open>null\<close>,
  every field that the code trims is falsy or a string (so is \<^verbatim>\<open>address.state\<close>), and no
  field that is converted to a string or compared is a plain data object with an own
  \<^verbatim>\<open>toString\<close> property. When it returns, the result is \<open>\<lparr>isValid, errors\<rparr>\<close> with \<open>isValid\<close>
  true exactly when \<open>errors\<close> is empty. On the other inputs of the model it throws a
  \<^verbatim>\<open>TypeError\<close>.
\<close>

theorem validators_return_iff:
  "(validateUser E u \<noteq> None \<longleftrightarrow> userShape u) \<and>
   (validateInsurance E u \<noteq> None \<longleftrightarrow> insuranceShape u) \<and>
   (validatePrescription E u \<noteq> None \<longleftrightarrow> prescriptionShape u) \<and>
   (validateUser E u = Some r \<longrightarrow> isValid r = (errors r = [])) \<and>
   (validateInsurance E u = Some r \<longrightarrow> isValid r = (errors r = [])) \<and>
   (validatePrescription E u = Some r \<longrightarrow> isValid r = (errors r = []))"
proof -
  have "validateUser E u \<noteq> None \<longleftrightarrow> (\<exists>r. validateUser E u = Some r)" by auto
  then have user: "validateUser E u \<noteq> None \<longleftrightarrow> userShape u"
    by (simp add: validateUser_Some_iff)
  have "validateInsurance E u \<noteq> None \<longleftrightarrow> (\<exists>r. validateInsurance E u = Some r)" by auto
  then have insurance: "validateInsurance E u \<noteq> None \<longleftrightarrow> insuranceShape u"
    by (simp add: validateInsurance_Some_iff)
  have "validatePrescription E u \<noteq> None \<longleftrightarrow> (\<exists>r. validatePrescription E u = Some r)" by auto
  then have prescription: "validatePrescription E u \<noteq> None \<longleftrightarrow> prescriptionShape u"
    by (simp add: validatePrescription_Some_iff)
  show ?thesis
    using user insurance prescription
    by (simp add: validateUser_Some_iff validateInsurance_Some_iff validatePrescription_Some_iff)
qed

theorem validators_return_iff_witness:
  "userShape (JObj [(''firstName'', JStr ''Jo''), (''address'', JObj [(''state'', JStr ''IL'')])]) \<and>
   validateUser engine0
     (JObj [(''firstName'', JStr ''Jo''), (''address'', JObj [(''state'', JStr ''IL'')])]) \<noteq> None \<and>
   \<not> userShape (JObj [(''firstName'', JNum (Fin 5))]) \<and>
   \<not> userShape (JObj [(''address'', JObj [(''state'', JNum (Fin 5))])]) \<and>
   validateUser engine0 (JObj [(''address'', JObj [(''state'', JNum (Fin 5))])]) = None \<and>
   \<not> userShape JUndefined \<and> validateUser engine0 JUndefined = None"
proof -
  let ?good = "JObj [(''firstName'', JStr ''Jo''), (''address'', JObj [(''state'', JStr ''IL'')])]"
  let ?bad = "JObj [(''address'', JObj [(''state'', JNum (Fin 5))])]"
  have good: "userShape ?good"
    by (simp add: userShape_def readable_def field_def)
  have bad: "\<not> userShape (JObj [(''firstName'', JNum (Fin 5))])" "\<not> userShape ?bad" "\<not> userShape JUndefined"
    by (simp_all add: userShape_def readable_def field_def)
  show ?thesis
    using good bad validators_return_iff [of engine0 ?good] validators_return_iff [of engine0 ?bad]
      validators_return_iff [of engine0 JUndefined]
    by simp
qed

text \<open>
  C4, as stated: the cross-field checks are evaluated after the per-field checks. In
  \<open>validatePrescription\<close> the comparison of the refills remaining with the refills allowed
  sits inside the block of \<^verbatim>\<open>refillsRemaining\<close>, before the checks of the prescriber, the
  prescribed date, the status and the pharmacy: its error precedes theirs.
\<close>

theorem refills_check_precedes_prescriber_checks:
  \<open>map_option errors (validatePrescription engine0
      (JObj [(''refillsAllowed'', JNum (Fin 2)), (''refillsRemaining'', JNum (Fin 5))])) =
    Some [''User ID is required'', ''Medication name is required'', ''Medication form is required'',
          ''Medication strength is required (e.g., "500mg", "10mg/ml")'',
          ''Dosage instructions are required'', ''Quantity is required'', ''Days supply is required'',
          ''Refills remaining cannot exceed refills allowed'',
          ''Prescriber name is required'', ''Prescriber NPI is required'',
          ''Prescribed date is required'']\<close>
  by code_simp

text \<open>
  C4, amended: in \<open>validateInsurance\<close> the three cross-field errors come after every
  per-field error. In \<open>validatePrescription\<close> the refills comparison is made inside the
  block of \<^verbatim>\<open>refillsRemaining\<close>: the errors are those of the fields up to
  \<^verbatim>\<open>refillsAllowed\<close>, then the two errors of \<^verbatim>\<open>refillsRemaining\<close>, then those of the
  prescriber, the prescribed date, the status and the pharmacy, so that the refills error
  comes after every error of the first group and before every error of the last. No
  per-field failure suppresses a cross-field check: on every record on which the validator
  returns, each cross-field error is reported exactly when its comparison holds, whatever
  the other fields are; so a record with \<^verbatim>\<open>deductibleMet = 600\<close> and \<^verbatim>\<open>deductible = 500\<close> always
  gets the error about the deductible.
\<close>

theorem cross_field_checks:
  "(validateInsurance E u = Some r \<longrightarrow>
      (\<exists>per cross. errors r = per @ cross \<and>
         (\<forall>m\<in>set cross. m \<in> {''Termination date must be after effective date'',
                              ''Deductible met cannot exceed total deductible'',
                              ''Out of pocket met cannot exceed out of pocket max''}) \<and>
         (\<forall>m\<in>set per. m \<notin> {''Termination date must be after effective date'',
                            ''Deductible met cannot exceed total deductible'',
                            ''Out of pocket met cannot exceed out of pocket max''})) \<and>
      (''Termination date must be after effective date'' \<in> set (errors r) \<longleftrightarrow>
         truthy (field u ''effectiveDate'') \<and> truthy (field u ''terminationDate'') \<and>
         dateNotAfter E (field u ''terminationDate'') (field u ''effectiveDate'')) \<and>
      (''Deductible met cannot exceed total deductible'' \<in> set (errors r) \<longleftrightarrow>
         jsGreater E (field u ''deductibleMet'') (field u ''deductible'') = Some True) \<and>
      (''Out of pocket met cannot exceed out of pocket max'' \<in> set (errors r) \<longleftrightarrow>
         jsGreater E (field u ''outOfPocketMet'') (field u ''outOfPocketMax'') = Some True)) \<and>
   (validatePrescription E p = Some r' \<longrightarrow>
      (''Refills remaining cannot exceed refills allowed'' \<in> set (errors r') \<longleftrightarrow>
         field p ''refillsRemaining'' \<noteq> JUndefined \<and>
         jsGreater E (field p ''refillsRemaining'') (field p ''refillsAllowed'') = Some True)) \<and>
   (validateInsurance E u = Some r \<and> field u ''deductibleMet'' = JNum (Fin 600) \<and>
    field u ''deductible'' = JNum (Fin 500) \<longrightarrow>
      ''Deductible met cannot exceed total deductible'' \<in> set (errors r)) \<and>
   (validatePrescription E p = Some r' \<longrightarrow>
      (\<exists>early refills late. errors r' = early @ refills @ late \<and>
         set early \<subseteq>
           {''User ID is required'', ''Medication name is required'', ''Medication form is required'',
            ''Invalid medication form. Must be one of: TABLET, CAPSULE, LIQUID, INJECTION, CREAM, INHALER, PATCH, OTHER'',
            strengthRequired, ''NDC must be in format: 12345-1234-12'',
            ''Dosage instructions are required'', ''Quantity is required'',
            ''Quantity must be a positive number'', ''Days supply is required'',
            ''Days supply must be a positive number'', ''Refills allowed is required'',
            ''Refills allowed must be a non-negative number''} \<and>
         set refills \<subseteq>
           {''Refills remaining must be a non-negative number'',
            ''Refills remaining cannot exceed refills allowed''} \<and>
         set late \<subseteq>
           {''Prescriber name is required'', ''Prescriber NPI is required'',
            ''Prescriber NPI must be exactly 10 digits'', ''Prescribed date is required'',
            ''Prescribed date must be in YYYY-MM-DD format'',
            ''Invalid prescription status. Must be one of: PENDING, SUBMITTED, APPROVED, DENIED, PRIOR_AUTH_REQUIRED, FILLED, PICKED_UP, CANCELLED'',
            ''Pharmacy NPI must be exactly 10 digits''}) \<and>
      (\<forall>m\<in>{''Prescriber name is required'', ''Prescriber NPI is required'',
             ''Prescriber NPI must be exactly 10 digits'', ''Prescribed date is required'',
             ''Prescribed date must be in YYYY-MM-DD format'',
             ''Invalid prescription status. Must be one of: PENDING, SUBMITTED, APPROVED, DENIED, PRIOR_AUTH_REQUIRED, FILLED, PICKED_UP, CANCELLED'',
             ''Pharmacy NPI must be exactly 10 digits''}.
         precedes (errors r') ''Refills remaining cannot exceed refills allowed'' m) \<and>
      (\<forall>m\<in>{''User ID is required'', ''Medication name is required'', ''Medication form is required'',
             ''Invalid medication form. Must be one of: TABLET, CAPSULE, LIQUID, INJECTION, CREAM, INHALER, PATCH, OTHER'',
             strengthRequired, ''NDC must be in format: 12345-1234-12'',
             ''Dosage instructions are required'', ''Quantity is required'',
             ''Quantity must be a positive number'', ''Days supply is required'',
             ''Days supply must be a positive number'', ''Refills allowed is required'',
             ''Refills allowed must be a non-negative number''}.
         precedes (errors r') m ''Refills remaining cannot exceed refills allowed''))"
proof (intro conjI impI)
  assume r: "validateInsurance E u = Some r"
  then have e: "errors r = insuranceErrors E u"
    by (simp add: validateInsurance_Some_iff)
  show "\<exists>per cross. errors r = per @ cross \<and>
         (\<forall>m\<in>set cross. m \<in> {''Termination date must be after effective date'',
                              ''Deductible met cannot exceed total deductible'',
                              ''Out of pocket met cannot exceed out of pocket max''}) \<and>
         (\<forall>m\<in>set per. m \<notin> {''Termination date must be after effective date'',
                            ''Deductible met cannot exceed total deductible'',
                            ''Out of pocket met cannot exceed out of pocket max''})"
    unfolding e insuranceErrors_def
    using insurance_field_errors_clean [of E u] insurance_cross_errors_only [of _ E u]
    by (intro exI [of _ "insuranceFieldErrors E u"] exI [of _ "insuranceCrossErrors E u"]) blast
  show "''Termination date must be after effective date'' \<in> set (errors r) \<longleftrightarrow>
         truthy (field u ''effectiveDate'') \<and> truthy (field u ''terminationDate'') \<and>
         dateNotAfter E (field u ''terminationDate'') (field u ''effectiveDate'')"
    by (simp add: e insuranceErrors_defs)
  show "''Deductible met cannot exceed total deductible'' \<in> set (errors r) \<longleftrightarrow>
         jsGreater E (field u ''deductibleMet'') (field u ''deductible'') = Some True"
    by (simp add: e insuranceErrors_defs)
  show "''Out of pocket met cannot exceed out of pocket max'' \<in> set (errors r) \<longleftrightarrow>
         jsGreater E (field u ''outOfPocketMet'') (field u ''outOfPocketMax'') = Some True"
    by (simp add: e insuranceErrors_defs)
next
  assume "validatePrescription E p = Some r'"
  then show "''Refills remaining cannot exceed refills allowed'' \<in> set (errors r') \<longleftrightarrow>
         field p ''refillsRemaining'' \<noteq> JUndefined \<and>
         jsGreater E (field p ''refillsRemaining'') (field p ''refillsAllowed'') = Some True"
    by (simp add: validatePrescription_Some_iff prescriptionErrors_defs strengthRequired_def)
next
  assume "validateInsurance E u = Some r \<and> field u ''deductibleMet'' = JNum (Fin 600) \<and>
    field u ''deductible'' = JNum (Fin 500)"
  then show "''Deductible met cannot exceed total deductible'' \<in> set (errors r)"
    by (simp add: validateInsurance_Some_iff insuranceErrors_defs jsGreater_def)
next
  assume "validatePrescription E p = Some r'"
  then have e: "errors r' = prescriptionErrors E p"
    by (simp add: validatePrescription_Some_iff)
  show "\<exists>early refills late. errors r' = early @ refills @ late \<and>
         set early \<subseteq>
           {''User ID is required'', ''Medication name is required'', ''Medication form is required'',
            ''Invalid medication form. Must be one of: TABLET, CAPSULE, LIQUID, INJECTION, CREAM, INHALER, PATCH, OTHER'',
            strengthRequired, ''NDC must be in format: 12345-1234-12'',
            ''Dosage instructions are required'', ''Quantity is required'',
            ''Quantity must be a positive number'', ''Days supply is required'',
            ''Days supply must be a positive number'', ''Refills allowed is required'',
            ''Refills allowed must be a non-negative number''} \<and>
         set refills \<subseteq>
           {''Refills remaining must be a non-negative number'',
            ''Refills remaining cannot exceed refills allowed''} \<and>
         set late \<subseteq>
           {''Prescriber name is required'', ''Prescriber NPI is required'',
            ''Prescriber NPI must be exactly 10 digits'', ''Prescribed date is required'',
            ''Prescribed date must be in YYYY-MM-DD format'',
            ''Invalid prescription status. Must be one of: PENDING, SUBMITTED, APPROVED, DENIED, PRIOR_AUTH_REQUIRED, FILLED, PICKED_UP, CANCELLED'',
            ''Pharmacy NPI must be exactly 10 digits''}"
    unfolding e prescriptionErrors_def
    by (intro exI [of _ "prescriptionEarlyErrors E p"] exI [of _ "prescriptionRefillsErrors E p"]
        exI [of _ "prescriptionLateErrors E p"] conjI refl prescription_early_messages
        prescription_refills_messages prescription_late_messages)
  show "\<forall>m\<in>{''Prescriber name is required'', ''Prescriber NPI is required'',
             ''Prescriber NPI must be exactly 10 digits'', ''Prescribed date is required'',
             ''Prescribed date must be in YYYY-MM-DD format'',
             ''Invalid prescription status. Must be one of: PENDING, SUBMITTED, APPROVED, DENIED, PRIOR_AUTH_REQUIRED, FILLED, PICKED_UP, CANCELLED'',
             ''Pharmacy NPI must be exactly 10 digits''}.
         precedes (errors r') ''Refills remaining cannot exceed refills allowed'' m"
    unfolding e by (intro ballI refills_error_before_late)
  show "\<forall>m\<in>{''User ID is required'', ''Medication name is required'', ''Medication form is required'',
             ''Invalid medication form. Must be one of: TABLET, CAPSULE, LIQUID, INJECTION, CREAM, INHALER, PATCH, OTHER'',
             strengthRequired, ''NDC must be in format: 12345-1234-12'',
             ''Dosage instructions are required'', ''Quantity is required'',
             ''Quantity must be a positive number'', ''Days supply is required'',
             ''Days supply must be a positive number'', ''Refills allowed is required'',
             ''Refills allowed must be a non-negative number''}.
         precedes (errors r') m ''Refills remaining cannot exceed refills allowed''"
    unfolding e by (intro ballI early_before_refills_error)
qed

theorem cross_field_checks_witness:
  "validateInsurance engine0
     (JObj [(''deductibleMet'', JNum (Fin 600)), (''deductible'', JNum (Fin 500))]) \<noteq> None \<and>
   ''Deductible met cannot exceed total deductible'' \<in>
     set (errors (the (validateInsurance engine0
       (JObj [(''deductibleMet'', JNum (Fin 600)), (''deductible'', JNum (Fin 500))])))) \<and>
   map_option errors (validateInsurance engine0
     (JObj [(''deductibleMet'', JNum (Fin 600)), (''deductible'', JNum (Fin (- 5)))])) =
   Some [''User ID is required'', ''Insurance company name is required'',
         ''Policy number is required'', ''Plan type is required'', ''Plan name is required'',
         ''RxBIN is required'', ''Deductible must be a non-negative number (in cents)'',
         ''Effective date is required'', ''Deductible met cannot exceed total deductible''] \<and>
   validatePrescription engine0
     (JObj [(''refillsAllowed'', JNum (Fin 2)), (''refillsRemaining'', JNum (Fin 5))]) \<noteq> None \<and>
   precedes (errors (the (validatePrescription engine0
       (JObj [(''refillsAllowed'', JNum (Fin 2)), (''refillsRemaining'', JNum (Fin 5))]))))
     ''Refills remaining cannot exceed refills allowed'' ''Prescriber name is required'' \<and>
   precedes (errors (the (validatePrescription engine0
       (JObj [(''refillsAllowed'', JNum (Fin 2)), (''refillsRemaining'', JNum (Fin 5))]))))
     ''Quantity is required'' ''Refills remaining cannot exceed refills allowed''"
proof -
  let ?u = "JObj [(''deductibleMet'', JNum (Fin 600)), (''deductible'', JNum (Fin 500))]"
  let ?p = "JObj [(''refillsAllowed'', JNum (Fin 2)), (''refillsRemaining'', JNum (Fin 5))]"
  obtain r where r: "validateInsurance engine0 ?u = Some r"
    using insurance_600_500_returns by auto
  obtain r' where r': "validatePrescription engine0 ?p = Some r'"
    using prescription_2_5_errors by auto
  have f: "field ?u ''deductibleMet'' = JNum (Fin 600)" "field ?u ''deductible'' = JNum (Fin 500)"
    by (simp_all add: field_def)
  note t = cross_field_checks [of engine0 ?u r ?p r']
  have a: "''Deductible met cannot exceed total deductible'' \<in> set (errors r)"
    using t [THEN conjunct2, THEN conjunct2, THEN conjunct1] r f by blast
  note o = t [THEN conjunct2, THEN conjunct2, THEN conjunct2, THEN mp, OF r', THEN conjunct2]
  have b: "precedes (errors r') ''Refills remaining cannot exceed refills allowed''
             ''Prescriber name is required''"
    by (rule o [THEN conjunct1, THEN bspec]) (rule insertI1)
  have c: "precedes (errors r') ''Quantity is required''
             ''Refills remaining cannot exceed refills allowed''"
    by (rule o [THEN conjunct2, THEN bspec]) (intro insertI1 insertI2)
  show ?thesis
    using r r' a b c insurance_600_negative_errors by simp
qed

text \<open>
  C9, as stated: under the strict comparison a record whose termination date equals today
  is still reported active. It is not: the date-only string \<^verbatim>\<open>"2024-06-15"\<close> denotes
  midnight UTC at the start of that day, which is strictly before noon UTC of the same
  day, and \<open>isInsuranceActive\<close> returns false.
\<close>

theorem same_day_termination_inactive:
  "dateParse engine0 ''2024-06-15'' = Fin 1718409600000 \<and>
   (1718409600000 :: int) < 1718452800000 \<and> (1718452800000 :: int) < 1718409600000 + msPerDay \<and>
   isInsuranceActive engine0 1718452800000
     (JObj [(''effectiveDate'', JStr ''2024-01-01''), (''terminationDate'', JStr ''2024-06-15'')]) =
   Some False"
  by (simp add: parse_2024_06_15 parse_2024_01_01 msPerDay_def isInsuranceActive_def)

text \<open>
  C9, amended: \<open>isInsuranceActive\<close> compares instants. It returns false when the instant of
  the effective date is after now; false when a termination date is present (truthy) and
  its instant is strictly before now; and otherwise true unless \<^verbatim>\<open>isActive\<close> is the boolean
  false (an absent flag counts as true). A termination instant equal to now still counts
  as active; a date-only termination string denotes midnight UTC, so a record whose
  termination date is today is active at that instant only and inactive for the rest of
  the day.
\<close>

theorem isInsuranceActive_cases:
  "(readable u \<and> newDate E (field u ''effectiveDate'') = Some a \<and> numLt (Fin (of_int now)) a \<longrightarrow>
      isInsuranceActive E now u = Some False) \<and>
   (readable u \<and> newDate E (field u ''effectiveDate'') = Some a \<and> \<not> numLt (Fin (of_int now)) a \<and>
    truthy (field u ''terminationDate'') \<and> newDate E (field u ''terminationDate'') = Some b \<and>
    numLt b (Fin (of_int now)) \<longrightarrow>
      isInsuranceActive E now u = Some False) \<and>
   (readable u \<and> newDate E (field u ''effectiveDate'') = Some a \<and> \<not> numLt (Fin (of_int now)) a \<and>
    (truthy (field u ''terminationDate'') \<longrightarrow>
       newDate E (field u ''terminationDate'') = Some b \<and> \<not> numLt b (Fin (of_int now))) \<longrightarrow>
      isInsuranceActive E now u = Some (field u ''isActive'' \<noteq> JBool False)) \<and>
   (readable u \<and> newDate E (field u ''effectiveDate'') = Some a \<and> \<not> numLt (Fin (of_int now)) a \<and>
    newDate E (field u ''terminationDate'') = Some (Fin (of_int now)) \<and>
    field u ''isActive'' = JUndefined \<longrightarrow>
      isInsuranceActive E now u = Some True) \<and>
   (readable u \<and> field u ''effectiveDate'' = JStr ''2024-01-01'' \<and>
    field u ''terminationDate'' = JStr ''2024-06-15'' \<and> 1718409600000 < now \<longrightarrow>
      isInsuranceActive E now u = Some False)"
proof (intro conjI impI)
  assume "readable u \<and> newDate E (field u ''effectiveDate'') = Some a \<and> numLt (Fin (of_int now)) a"
  then show "isInsuranceActive E now u = Some False"
    by (simp add: isInsuranceActive_def getProp_readable)
next
  assume "readable u \<and> newDate E (field u ''effectiveDate'') = Some a \<and> \<not> numLt (Fin (of_int now)) a \<and>
    truthy (field u ''terminationDate'') \<and> newDate E (field u ''terminationDate'') = Some b \<and>
    numLt b (Fin (of_int now))"
  then show "isInsuranceActive E now u = Some False"
    by (simp add: isInsuranceActive_def getProp_readable)
next
  assume "readable u \<and> newDate E (field u ''effectiveDate'') = Some a \<and> \<not> numLt (Fin (of_int now)) a \<and>
    (truthy (field u ''terminationDate'') \<longrightarrow>
       newDate E (field u ''terminationDate'') = Some b \<and> \<not> numLt b (Fin (of_int now)))"
  then show "isInsuranceActive E now u = Some (field u ''isActive'' \<noteq> JBool False)"
    by (cases "truthy (field u ''terminationDate'')")
      (simp_all add: isInsuranceActive_def getProp_readable)
next
  assume "readable u \<and> newDate E (field u ''effectiveDate'') = Some a \<and> \<not> numLt (Fin (of_int now)) a \<and>
    newDate E (field u ''terminationDate'') = Some (Fin (of_int now)) \<and>
    field u ''isActive'' = JUndefined"
  then show "isInsuranceActive E now u = Some True"
    by (cases "truthy (field u ''terminationDate'')")
      (simp_all add: isInsuranceActive_def getProp_readable)
next
  assume "readable u \<and> field u ''effectiveDate'' = JStr ''2024-01-01'' \<and>
    field u ''terminationDate'' = JStr ''2024-06-15'' \<and> 1718409600000 < now"
  then show "isInsuranceActive E now u = Some False"
    by (simp add: isInsuranceActive_def getProp_readable parse_2024_06_15 parse_2024_01_01)
qed

theorem isInsuranceActive_cases_witness:
  "isInsuranceActive engine0 1718409600000
     (JObj [(''effectiveDate'', JStr ''2024-01-01''), (''terminationDate'', JStr ''2024-06-15'')]) =
   Some True \<and>
   isInsuranceActive engine0 1718409600001
     (JObj [(''effectiveDate'', JStr ''2024-01-01''), (''terminationDate'', JStr ''2024-06-15'')]) =
   Some False \<and>
   isInsuranceActive engine0 1700000000000
     (JObj [(''effectiveDate'', JStr ''2024-01-01''), (''terminationDate'', JStr ''2024-06-15'')]) =
   Some False \<and>
   isInsuranceActive engine0 1718409600000
     (JObj [(''effectiveDate'', JStr ''2024-01-01''), (''isActive'', JBool False)]) =
   Some False"
proof -
  let ?u = "JObj [(''effectiveDate'', JStr ''2024-01-01''), (''terminationDate'', JStr ''2024-06-15'')]"
  let ?v = "JObj [(''effectiveDate'', JStr ''2024-01-01''), (''isActive'', JBool False)]"
  have f: "readable ?u" "field ?u ''effectiveDate'' = JStr ''2024-01-01''"
    "field ?u ''terminationDate'' = JStr ''2024-06-15''" "field ?u ''isActive'' = JUndefined"
    "readable ?v" "field ?v ''effectiveDate'' = JStr ''2024-01-01''"
    "field ?v ''terminationDate'' = JUndefined" "field ?v ''isActive'' = JBool False"
    by (simp_all add: field_def readable_def)
  have 1: "isInsuranceActive engine0 1718409600000 ?u = Some True"
    using isInsuranceActive_cases [of ?u engine0 "Fin 1704067200000" 1718409600000]
    by (simp add: f parse_2024_06_15 parse_2024_01_01)
  have 2: "isInsuranceActive engine0 1718409600001 ?u = Some False"
    using isInsuranceActive_cases [of ?u engine0 "Fin 1704067200000" 1718409600001]
    by (simp add: f)
  have 3: "isInsuranceActive engine0 1700000000000 ?u = Some False"
    using isInsuranceActive_cases [of ?u engine0 "Fin 1704067200000" 1700000000000]
    by (simp add: f parse_2024_01_01)
  have 4: "isInsuranceActive engine0 1718409600000 ?v = Some False"
    using isInsuranceActive_cases [of ?v engine0 "Fin 1704067200000" 1718409600000 NaN]
    by (simp add: f parse_2024_01_01)
  show ?thesis using 1 2 3 4 by simp
qed

text \<open>
  C3, as stated: a required field that is empty after trimming gets a presence error and
  no format error. For \<^verbatim>\<open>email\<close> the code tests \<^verbatim>\<open>!user.email\<close> only: the string of two
  spaces is empty after trimming, yet it is truthy, so it gets the format error and no
  presence error.
\<close>

theorem blank_email_gets_format_error:
  "trim ''  '' = [] \<and>
   validateUser engine0 (JObj [(''email'', JStr ''  '')]) =
     Some \<lparr> isValid = False,
            errors = [''Invalid email format'', ''First name is required'', ''Last name is required'',
                      ''Date of birth is required'', ''Phone number is required'',
                      ''Address is required''] \<rparr>"
  using trim_two_spaces validateUser_blank_email by simp

text \<open>
  C3, amended: whenever a validator returns, a required field that is absent makes the
  result invalid, with the presence error of that field and without its format or range
  error. Absent means: falsy, for the fields tested with \<^verbatim>\<open>!x\<close>; falsy or a string that is
  empty after trimming, for the text fields the code trims; \<^verbatim>\<open>undefined\<close> or \<^verbatim>\<open>null\<close>, for
  quantity, days supply and refills allowed. The fields of the address are checked only
  when the address is present.

  A non-empty string of whitespace in a field tested with \<^verbatim>\<open>!x\<close> is not absent, and gets no
  presence error. Where the field has a format check (\<^verbatim>\<open>email\<close>, \<^verbatim>\<open>dateOfBirth\<close>,
  \<^verbatim>\<open>phoneNumber\<close>, \<^verbatim>\<open>address.state\<close>, \<^verbatim>\<open>address.zipCode\<close>, \<^verbatim>\<open>planType\<close>, \<^verbatim>\<open>rxBIN\<close>,
  \<^verbatim>\<open>effectiveDate\<close>, \<^verbatim>\<open>medicationForm\<close>, \<^verbatim>\<open>prescriberNPI\<close>, \<^verbatim>\<open>prescribedDate\<close>) the result is
  invalid with the format error of that field. \<^verbatim>\<open>userId\<close> has no format check: it gets no
  presence error, and a record that is otherwise good is valid. An \<^verbatim>\<open>address\<close> that is
  such a string gets no presence error of its own, and the presence errors of its four
  fields.

  When \<^verbatim>\<open>refillsAllowed\<close> is \<^verbatim>\<open>undefined\<close> the comparison of the refills remaining reports
  nothing either. When it is \<^verbatim>\<open>null\<close> the comparison is still made, against 0, so the
  presence error can come together with the error that the refills remaining exceed the
  refills allowed.
\<close>

theorem required_fields_presence:
  "(validateUser E u = Some r \<longrightarrow>
      (\<not> truthy (field u ''email'') \<longrightarrow>
         presenceOnly r ''Email is required'' [''Invalid email format'']) \<and>
      (emptyText (field u ''firstName'') \<longrightarrow>
         presenceOnly r ''First name is required'' [''First name must be 100 characters or less'']) \<and>
      (emptyText (field u ''lastName'') \<longrightarrow>
         presenceOnly r ''Last name is required'' [''Last name must be 100 characters or less'']) \<and>
      (\<not> truthy (field u ''dateOfBirth'') \<longrightarrow>
         presenceOnly r ''Date of birth is required'' [''Date of birth must be in YYYY-MM-DD format'']) \<and>
      (\<not> truthy (field u ''phoneNumber'') \<longrightarrow>
         presenceOnly r ''Phone number is required'' [''Invalid phone number format'']) \<and>
      (\<not> truthy (field u ''address'') \<longrightarrow>
         presenceOnly r ''Address is required''
           [''Street address is required'', ''City is required'', ''State is required'',
            ''Invalid state code (must be 2-letter code like CA, NY)'', ''ZIP code is required'',
            ''Invalid ZIP code format'']) \<and>
      (truthy (field u ''address'') \<and> emptyText (field (field u ''address'') ''street'') \<longrightarrow>
         presenceOnly r ''Street address is required'' []) \<and>
      (truthy (field u ''address'') \<and> emptyText (field (field u ''address'') ''city'') \<longrightarrow>
         presenceOnly r ''City is required'' []) \<and>
      (truthy (field u ''address'') \<and> \<not> truthy (field (field u ''address'') ''state'') \<longrightarrow>
         presenceOnly r ''State is required''
           [''Invalid state code (must be 2-letter code like CA, NY)'']) \<and>
      (truthy (field u ''address'') \<and> \<not> truthy (field (field u ''address'') ''zipCode'') \<longrightarrow>
         presenceOnly r ''ZIP code is required'' [''Invalid ZIP code format''])) \<and>
   (validateInsurance E i = Some r \<longrightarrow>
      (\<not> truthy (field i ''userId'') \<longrightarrow> presenceOnly r ''User ID is required'' []) \<and>
      (emptyText (field i ''insuranceCompany'') \<longrightarrow>
         presenceOnly r ''Insurance company name is required'' []) \<and>
      (emptyText (field i ''policyNumber'') \<longrightarrow> presenceOnly r ''Policy number is required'' []) \<and>
      (\<not> truthy (field i ''planType'') \<longrightarrow>
         presenceOnly r ''Plan type is required''
           [''Invalid plan type. Must be one of: HMO, PPO, EPO, POS, HDHP'']) \<and>
      (emptyText (field i ''planName'') \<longrightarrow> presenceOnly r ''Plan name is required'' []) \<and>
      (\<not> truthy (field i ''rxBIN'') \<longrightarrow>
         presenceOnly r ''RxBIN is required'' [''RxBIN must be exactly 6 digits'']) \<and>
      (\<not> truthy (field i ''effectiveDate'') \<longrightarrow>
         presenceOnly r ''Effective date is required''
           [''Effective date must be in YYYY-MM-DD format'',
            ''Termination date must be after effective date''])) \<and>
   (validatePrescription E p = Some r \<longrightarrow>
      (\<not> truthy (field p ''userId'') \<longrightarrow> presenceOnly r ''User ID is required'' []) \<and>
      (emptyText (field p ''medicationName'') \<longrightarrow>
         presenceOnly r ''Medication name is required'' []) \<and>
      (\<not> truthy (field p ''medicationForm'') \<longrightarrow>
         presenceOnly r ''Medication form is required''
           [''Invalid medication form. Must be one of: TABLET, CAPSULE, LIQUID, INJECTION, CREAM, INHALER, PATCH, OTHER'']) \<and>
      (emptyText (field p ''strength'') \<longrightarrow> presenceOnly r strengthRequired []) \<and>
      (emptyText (field p ''dosageInstructions'') \<longrightarrow>
         presenceOnly r ''Dosage instructions are required'' []) \<and>
      (field p ''quantity'' = JUndefined \<or> field p ''quantity'' = JNull \<longrightarrow>
         presenceOnly r ''Quantity is required'' [''Quantity must be a positive number'']) \<and>
      (field p ''daysSupply'' = JUndefined \<or> field p ''daysSupply'' = JNull \<longrightarrow>
         presenceOnly r ''Days supply is required'' [''Days supply must be a positive number'']) \<and>
      (field p ''refillsAllowed'' = JUndefined \<or> field p ''refillsAllowed'' = JNull \<longrightarrow>
         presenceOnly r ''Refills allowed is required''
           [''Refills allowed must be a non-negative number'']) \<and>
      (emptyText (field p ''prescriberName'') \<longrightarrow>
         presenceOnly r ''Prescriber name is required'' []) \<and>
      (\<not> truthy (field p ''prescriberNPI'') \<longrightarrow>
         presenceOnly r ''Prescriber NPI is required'' [''Prescriber NPI must be exactly 10 digits'']) \<and>
      (\<not> truthy (field p ''prescribedDate'') \<longrightarrow>
         presenceOnly r ''Prescribed date is required''
           [''Prescribed date must be in YYYY-MM-DD format''])) \<and>
   (validateUser E u = Some r \<longrightarrow>
      (whitespaceOnly (field u ''email'') \<longrightarrow>
         formatOnly r ''Email is required'' ''Invalid email format'') \<and>
      (whitespaceOnly (field u ''dateOfBirth'') \<longrightarrow>
         formatOnly r ''Date of birth is required'' ''Date of birth must be in YYYY-MM-DD format'') \<and>
      (whitespaceOnly (field u ''phoneNumber'') \<longrightarrow>
         formatOnly r ''Phone number is required'' ''Invalid phone number format'') \<and>
      (whitespaceOnly (field u ''address'') \<longrightarrow>
         ''Address is required'' \<notin> set (errors r) \<and>
         ''Street address is required'' \<in> set (errors r) \<and>
         ''City is required'' \<in> set (errors r) \<and>
         ''State is required'' \<in> set (errors r) \<and>
         ''ZIP code is required'' \<in> set (errors r)) \<and>
      (truthy (field u ''address'') \<and> whitespaceOnly (field (field u ''address'') ''state'') \<longrightarrow>
         formatOnly r ''State is required''
           ''Invalid state code (must be 2-letter code like CA, NY)'') \<and>
      (truthy (field u ''address'') \<and> whitespaceOnly (field (field u ''address'') ''zipCode'') \<longrightarrow>
         formatOnly r ''ZIP code is required'' ''Invalid ZIP code format'')) \<and>
   (validateInsurance E i = Some r \<longrightarrow>
      (whitespaceOnly (field i ''userId'') \<longrightarrow> ''User ID is required'' \<notin> set (errors r)) \<and>
      (whitespaceOnly (field i ''planType'') \<longrightarrow>
         formatOnly r ''Plan type is required''
           ''Invalid plan type. Must be one of: HMO, PPO, EPO, POS, HDHP'') \<and>
      (whitespaceOnly (field i ''rxBIN'') \<longrightarrow>
         formatOnly r ''RxBIN is required'' ''RxBIN must be exactly 6 digits'') \<and>
      (whitespaceOnly (field i ''effectiveDate'') \<longrightarrow>
         formatOnly r ''Effective date is required''
           ''Effective date must be in YYYY-MM-DD format'')) \<and>
   (validatePrescription E p = Some r \<longrightarrow>
      (whitespaceOnly (field p ''userId'') \<longrightarrow> ''User ID is required'' \<notin> set (errors r)) \<and>
      (whitespaceOnly (field p ''medicationForm'') \<longrightarrow>
         formatOnly r ''Medication form is required''
           ''Invalid medication form. Must be one of: TABLET, CAPSULE, LIQUID, INJECTION, CREAM, INHALER, PATCH, OTHER'') \<and>
      (whitespaceOnly (field p ''prescriberNPI'') \<longrightarrow>
         formatOnly r ''Prescriber NPI is required'' ''Prescriber NPI must be exactly 10 digits'') \<and>
      (whitespaceOnly (field p ''prescribedDate'') \<longrightarrow>
         formatOnly r ''Prescribed date is required''
           ''Prescribed date must be in YYYY-MM-DD format'') \<and>
      (field p ''refillsAllowed'' = JUndefined \<longrightarrow>
         ''Refills remaining cannot exceed refills allowed'' \<notin> set (errors r)) \<and>
      (field p ''refillsAllowed'' = JNull \<longrightarrow>
         (''Refills remaining cannot exceed refills allowed'' \<in> set (errors r) \<longleftrightarrow>
            field p ''refillsRemaining'' \<noteq> JUndefined \<and>
            jsGreater E (field p ''refillsRemaining'') (JNum (Fin 0)) = Some True)))"
proof (intro conjI impI)
qed (simp_all add: validateUser_Some_iff validateInsurance_Some_iff validatePrescription_Some_iff
    userShape_def insuranceShape_def prescriptionShape_def userErrors_def insuranceErrors_defs
    prescriptionErrors_defs presenceOnly_def formatOnly_def blank_Some_True_iff blank_Some_False_iff
    strengthRequired_def whitespaceOnly_truthy whitespaceOnly_format whitespaceOnly_state
    whitespaceOnly_vocabulary whitespaceOnly_field jsGreater_undefined jsGreater_null_zero)

theorem required_fields_presence_witness:
  "validateUser engine0 (JObj [(''firstName'', JStr ''  '')]) \<noteq> None \<and>
   emptyText (field (JObj [(''firstName'', JStr ''  '')]) ''firstName'') \<and>
   \<not> truthy (field (JObj [(''firstName'', JStr ''  '')]) ''email'') \<and>
   presenceOnly (the (validateUser engine0 (JObj [(''firstName'', JStr ''  '')])))
     ''First name is required'' [''First name must be 100 characters or less''] \<and>
   presenceOnly (the (validateUser engine0 (JObj [(''firstName'', JStr ''  '')])))
     ''Email is required'' [''Invalid email format''] \<and>
   whitespaceOnly (field (JObj [(''email'', JStr ''  '')]) ''email'') \<and>
   formatOnly (the (validateUser engine0 (JObj [(''email'', JStr ''  '')])))
     ''Email is required'' ''Invalid email format'' \<and>
   whitespaceOnly (field (JObj [(''userId'', JStr ''  ''), (''insuranceCompany'', JStr ''Acme''),
            (''policyNumber'', JStr ''P1''), (''planType'', JStr ''PPO''),
            (''planName'', JStr ''Gold''), (''rxBIN'', JStr ''123456''),
            (''effectiveDate'', JStr ''2024-01-01'')]) ''userId'') \<and>
   validateInsurance engine0
     (JObj [(''userId'', JStr ''  ''), (''insuranceCompany'', JStr ''Acme''),
            (''policyNumber'', JStr ''P1''), (''planType'', JStr ''PPO''),
            (''planName'', JStr ''Gold''), (''rxBIN'', JStr ''123456''),
            (''effectiveDate'', JStr ''2024-01-01'')]) =
     Some \<lparr> isValid = True, errors = [] \<rparr> \<and>
   ''User ID is required'' \<notin> set (errors (the (validateInsurance engine0
     (JObj [(''userId'', JStr ''  ''), (''insuranceCompany'', JStr ''Acme''),
            (''policyNumber'', JStr ''P1''), (''planType'', JStr ''PPO''),
            (''planName'', JStr ''Gold''), (''rxBIN'', JStr ''123456''),
            (''effectiveDate'', JStr ''2024-01-01'')])))) \<and>
   whitespaceOnly (field (JObj [(''address'', JStr ''  '')]) ''address'') \<and>
   validateUser engine0 (JObj [(''address'', JStr ''  '')]) \<noteq> None \<and>
   ''Address is required'' \<notin>
     set (errors (the (validateUser engine0 (JObj [(''address'', JStr ''  '')])))) \<and>
   ''ZIP code is required'' \<in>
     set (errors (the (validateUser engine0 (JObj [(''address'', JStr ''  '')]))))"
proof -
  let ?u = "JObj [(''firstName'', JStr ''  '')]"
  let ?v = "JObj [(''email'', JStr ''  '')]"
  let ?i = "JObj [(''userId'', JStr ''  ''), (''insuranceCompany'', JStr ''Acme''),
            (''policyNumber'', JStr ''P1''), (''planType'', JStr ''PPO''),
            (''planName'', JStr ''Gold''), (''rxBIN'', JStr ''123456''),
            (''effectiveDate'', JStr ''2024-01-01'')]"
  obtain r where r: "validateUser engine0 ?u = Some r"
    using validateUser_blank_name_returns by auto
  obtain s where s: "validateUser engine0 ?v = Some s"
    using validateUser_blank_email by auto
  obtain t where t: "validateInsurance engine0 ?i = Some t"
    using insurance_blank_userId_valid by auto
  have f: "emptyText (field ?u ''firstName'')" "\<not> truthy (field ?u ''email'')"
    by (simp_all add: field_def trim_two_spaces)
  have g: "whitespaceOnly (field ?v ''email'')" "whitespaceOnly (field ?i ''userId'')"
    by (simp_all add: field_def isSpace_def)
  have a: "presenceOnly r ''First name is required'' [''First name must be 100 characters or less''] \<and>
        presenceOnly r ''Email is required'' [''Invalid email format'']"
    using required_fields_presence [of engine0 ?u r, THEN conjunct1] r f by blast
  have b: "formatOnly s ''Email is required'' ''Invalid email format''"
    using required_fields_presence [of engine0 ?v s, THEN conjunct2, THEN conjunct2,
        THEN conjunct2, THEN conjunct1] s g by blast
  have c: "''User ID is required'' \<notin> set (errors t)"
    using required_fields_presence [of engine0 _ t ?i, THEN conjunct2, THEN conjunct2,
        THEN conjunct2, THEN conjunct2, THEN conjunct1] t g by blast
  let ?w = "JObj [(''address'', JStr ''  '')]"
  obtain x where x: "validateUser engine0 ?w = Some x"
    using validateUser_blank_address by auto
  have h: "whitespaceOnly (field ?w ''address'')"
    by (simp add: field_def isSpace_def)
  have d: "''Address is required'' \<notin> set (errors x) \<and> ''ZIP code is required'' \<in> set (errors x)"
    using required_fields_presence [of engine0 ?w x, THEN conjunct2, THEN conjunct2,
        THEN conjunct2, THEN conjunct1] x h by blast
  show ?thesis
    using r s t x f g h a b c d insurance_blank_userId_valid by simp
qed

end
